theory Spec2Isabelle
  imports
    Main
    "HOL-Library.Word"
    "HOL-Library.Signed_Division"
    "HOL-Library.Log_Nat"
    "HOL-Library.Sublist"
begin

unbundle bit_operations_syntax

section \<open>walgot: a terminal client for wallabag\<close>

text \<open>
  The repository holds two Go files. \<^verbatim>\<open>main.go\<close> is package \<^verbatim>\<open>main\<close>: the whole
  client in one file (model, update functions, table rows, the two request callbacks).
  The other file is package \<^verbatim>\<open>tui\<close>: the model, the message types, the request
  callbacks with the on-disk cache, and the \<^verbatim>\<open>Update\<close> dispatcher. Both packages
  declare a \<^verbatim>\<open>model\<close>, \<^verbatim>\<open>requestWallabagNbEntries\<close> and
  \<^verbatim>\<open>requestWallabagEntries\<close>; the definitions taken from \<^verbatim>\<open>main.go\<close> carry the
  suffix \<open>_main\<close> where the name exists in both.

  Go's \<^verbatim>\<open>int\<close> is modelled as \<^typ>\<open>int\<close>; where an operation of the code can leave
  the 64-bit range the wrap-around is written out (\<open>wrap64\<close>). Writing to the log
  file (\<^verbatim>\<open>log.Println\<close>) is not modelled.
\<close>

subsection \<open>Values shared by both packages\<close>

text \<open>Go's \<^verbatim>\<open>error\<close> interface: a value with a text. \<^verbatim>\<open>nil\<close> is \<open>None\<close>.\<close>

datatype error = Error string

type_synonym byte = "8 word"

text \<open>
  \<^verbatim>\<open>wallabago.Item\<close>, with the fields the two packages read. The flags are integers
  in the library (\<^verbatim>\<open>IsArchived int\<close>, \<^verbatim>\<open>IsStarred int\<close>); \<open>UpdatedAt\<close> is an
  instant, kept as a number.
\<close>

record Item =
  ID :: int
  Title :: string
  DomainName :: string
  Content :: string
  IsArchived :: int
  IsStarred :: int
  UpdatedAt :: int

text \<open>\<^verbatim>\<open>table.Row\<close> is \<^verbatim>\<open>[]string\<close>; of the table widget only its rows are modelled.\<close>

type_synonym Row = "string list"

record table_Model =
  rows :: "Row list"

text \<open>\<^verbatim>\<open>termSize\<close>, declared alike in both packages.\<close>

record termSize =
  Width :: int
  Height :: int

text \<open>The messages of both packages (\<^verbatim>\<open>tea.Msg\<close> values). A key message is kept by
  the text \<^verbatim>\<open>msg.String()\<close> gives; \<open>otherMsg\<close> stands for any message type the
  packages do not name. The error message carries its text and the \<^verbatim>\<open>wallabagoError\<close>,
  which can be \<^verbatim>\<open>nil\<close>.\<close>

datatype msg =
    KeyMsg string
  | WindowSizeMsg int int
  | spinnerTickMsg
  | wallabagoResponseErrorMsg string "error option"
  | wallabagoResponseNbEntitiesMsg int
  | wallabagoResponseEntitiesMsg "Item list"
  | wallabagoResponseEntityUpdateMsg Item
  | wallabagoResponseClearMsg bool
  | wallabagoResponseAddEntryMsg Item
  | wallabagoResponseDeleteEntryMsg int
  | walgotSelectRowMsg int
  | walgotSearchEntryMsg string
  | otherMsg

subsection \<open>\<^verbatim>\<open>strconv.Itoa\<close>\<close>

definition digit :: "nat \<Rightarrow> char" where
  "digit d = ''0123456789'' ! d"

fun decimal :: "nat \<Rightarrow> string" where
  "decimal n = (if n < 10 then [digit n] else decimal (n div 10) @ [digit (n mod 10)])"

definition Itoa :: "int \<Rightarrow> string" where
  "Itoa i = (if i < 0 then CHR ''-'' # decimal (nat (- i)) else decimal (nat i))"

subsection \<open>The world outside: the wallabag API, the cache file, standard output\<close>

text \<open>
  What the callbacks do to the outside is recorded in order, as a list of events.
  A page request carries the four arguments both packages choose: entries per page,
  page number, sort field, sort order.
\<close>

datatype event =
    NbRequest
  | PageRequest int int string string
  | UpdateRequest int int int int
  | AddRequest string
  | DeleteRequest int
  | Stat
  | ReadFile
  | OpenFile
  | Write "byte list"
  | Close
  | Println string

text \<open>A file: its \<^verbatim>\<open>fs.FileMode\<close> (a \<^verbatim>\<open>uint32\<close>) and its bytes.\<close>

record osfile =
  mode :: "32 word"
  bytes :: "byte list"

text \<open>The state the callbacks change: the file at \<^verbatim>\<open>/tmp/walgot-cache.dat\<close>, if there
  is one, and the events so far.\<close>

record world =
  cache :: "osfile option"
  trace :: "event list"

definition emit :: "event \<Rightarrow> world \<Rightarrow> world" where
  "emit ev w = w\<lparr>trace := trace w @ [ev]\<rparr>"

text \<open>
  What the outside answers; the callbacks do not change it. Each call of the API gives
  its value and its error, as the Go functions do. \<open>ReadFile_err\<close> and
  \<open>OpenFile_err\<close> are the errors of \<^verbatim>\<open>os.ReadFile\<close> and \<^verbatim>\<open>os.OpenFile\<close> on the cache
  file (\<open>None\<close>: the call succeeds); \<open>Decode\<close> and \<open>Encode\<close> are the gob decoder and
  encoder (the encoder gives the bytes it wrote, and its error); \<open>Unmarshal\<close> is
  \<^verbatim>\<open>json.Unmarshal\<close> into an item; \<open>umask\<close> is the process's file mode mask;
  \<open>verbose\<close> is the flag of \<^verbatim>\<open>main.go\<close>.
\<close>

record env =
  GetNbTotalEntries :: "int \<times> error option"
  GetEntries :: "int \<Rightarrow> int \<Rightarrow> string \<Rightarrow> string \<Rightarrow> Item list \<times> error option"
  UpdateEntry :: "int \<Rightarrow> int \<Rightarrow> int \<Rightarrow> int \<Rightarrow> byte list \<times> error option"
  AddEntry :: "string \<Rightarrow> Item \<times> error option"
  DeleteEntry :: "int \<Rightarrow> error option"
  Unmarshal :: "byte list \<Rightarrow> Item \<times> error option"
  isValidURL :: "string \<Rightarrow> bool"
  ReadFile_err :: "error option"
  OpenFile_err :: "error option"
  Decode :: "byte list \<Rightarrow> Item list \<times> error option"
  Encode :: "Item list \<Rightarrow> byte list \<times> error option"
  umask :: "32 word"
  verbose :: bool

text \<open>How a callback ends: it returns a message, the process exits with a status
  (\<^verbatim>\<open>os.Exit\<close>), or it panics. A command (\<^verbatim>\<open>tea.Cmd\<close>) is run by the Bubble Tea
  runtime at some later point, on the world of that moment.\<close>

datatype outcome = Msg msg | Exit int | Panic

type_synonym cmd = "world \<Rightarrow> outcome \<times> world"

text \<open>Two's complement wrap-around of a 64-bit \<^verbatim>\<open>int\<close>.\<close>

definition wrap64 :: "int \<Rightarrow> int" where
  "wrap64 x = (x + 2 ^ 63) mod 2 ^ 64 - 2 ^ 63"


section \<open>Package tui\<close>

subsection \<open>The model\<close>

record walgotTableFilters =
  Archived :: bool
  Starred :: bool
  Unread :: bool
  Public :: bool
  Search :: string

record walgotTableSorts =
  Field :: string
  Order :: string

record walgotTableOptions =
  Filters :: walgotTableFilters
  Sorts :: walgotTableSorts

text \<open>The dialog box; the text input is a widget of the bubbles library.\<close>

record 'i walgotDialog =
  Message :: string
  TextInput :: 'i
  ShowInput :: bool
  Action :: string

text \<open>\<^verbatim>\<open>config.WalgotConfig\<close> is declared in a package that is not among the sources;
  these are the fields \<^verbatim>\<open>NewModel\<close> reads.\<close>

record WalgotConfig =
  NbEntriesPerAPICall :: int
  DebugMode :: bool
  DefaultListViewUnread :: bool
  DefaultListViewStarred :: bool
  DefaultListViewPublic :: bool

text \<open>The \<^verbatim>\<open>model\<close> struct. Viewport, spinner and text input are type parameters.\<close>

record ('v, 's, 'i) model =
  Table :: table_Model
  Viewport :: 'v
  Dialog :: "'i walgotDialog"
  Spinner :: 's
  UpdateMessage :: string
  Ready :: bool
  Reloading :: bool
  CurrentView :: string
  Options :: walgotTableOptions
  Entries :: "Item list"
  SelectedID :: int
  TotalEntriesOnServer :: int
  NbEntriesPerAPICall :: int
  TermSize :: termSize
  DebugMode :: bool

text \<open>\<^verbatim>\<open>NewModel(config)\<close>; the new spinner, the new text input and the zero viewport
  are arguments, the fields not named hold Go's zero values.\<close>

definition NewModel :: "'s \<Rightarrow> 'i \<Rightarrow> 'v \<Rightarrow> WalgotConfig \<Rightarrow> ('v, 's, 'i) model" where
  "NewModel s ti v config =
     \<lparr>Table = \<lparr>rows = []\<rparr>, Viewport = v,
      Dialog = \<lparr>Message = [], TextInput = ti, ShowInput = False, Action = []\<rparr>,
      Spinner = s, UpdateMessage = [], Ready = False, Reloading = True,
      CurrentView = ''list'',
      Options = \<lparr>Filters = \<lparr>Archived = False, Starred = DefaultListViewStarred config,
                              Unread = DefaultListViewUnread config,
                              Public = DefaultListViewPublic config, Search = []\<rparr>,
                 Sorts = \<lparr>Field = ''created'', Order = ''desc''\<rparr>\<rparr>,
      Entries = [], SelectedID = 0, TotalEntriesOnServer = 0,
      NbEntriesPerAPICall = WalgotConfig.NbEntriesPerAPICall config,
      TermSize = \<lparr>Width = 0, Height = 0\<rparr>,
      DebugMode = WalgotConfig.DebugMode config\<rparr>"

subsection \<open>The request callbacks\<close>

text \<open>\<^verbatim>\<open>err.Error()\<close>, and the line feed of the message texts.\<close>

fun errorText :: "error \<Rightarrow> string" where
  "errorText (Error s) = s"

definition LF :: char where
  "LF = CHR 0x0A"

definition cacheFilename :: string where
  "cacheFilename = ''/tmp/walgot-cache.dat''"

text \<open>\<^verbatim>\<open>requestWallabagNbEntries\<close>.\<close>

definition requestWallabagNbEntries :: "env \<Rightarrow> cmd" where
  "requestWallabagNbEntries E w =
     (let w = emit NbRequest w
      in case GetNbTotalEntries E of
           (nbArticles, Some e) \<Rightarrow>
             (Msg (wallabagoResponseErrorMsg
                (''Error:'' @ [LF] @
                 '' couldn't retrieve the total number of entries from wallabag API'')
                (Some e)), w)
         | (nbArticles, None) \<Rightarrow> (Msg (wallabagoResponseNbEntitiesMsg nbArticles), w))"

text \<open>
  The loop of \<^verbatim>\<open>requestWallabagEntries\<close>,
  \<^verbatim>\<open>for i := 1; i < nbCalls+1; i++\<close>: \<open>bound\<close> is the value of \<^verbatim>\<open>nbCalls+1\<close>,
  \<open>entries\<close> the slice so far. It returns at the first request that fails.
\<close>

function requestPages ::
  "env \<Rightarrow> int \<Rightarrow> string \<Rightarrow> string \<Rightarrow> int \<Rightarrow> int \<Rightarrow> Item list \<Rightarrow> world
     \<Rightarrow> (error + Item list) \<times> world" where
  "requestPages E limitArticleByAPICall sortField sortOrder bound i entries w =
     (if i < bound then
        (let w = emit (PageRequest limitArticleByAPICall i sortField sortOrder) w
         in case GetEntries E limitArticleByAPICall i sortField sortOrder of
              (items, Some err) \<Rightarrow> (Inl err, w)
            | (items, None) \<Rightarrow>
                requestPages E limitArticleByAPICall sortField sortOrder bound (i + 1)
                  (entries @ items) w)
      else (Inr entries, w))"
  by pat_completeness auto
termination
  by (relation "measure (\<lambda>(E, l, sf, so, bound, i, es, w). nat (bound - i))") auto

text \<open>
  \<^verbatim>\<open>requestWallabagEntries\<close>. The part before the returned closure runs when the
  function is called: it looks at the cache file and may read and decode it. The
  closure runs later, as a command; \<open>requestWallabagEntries_func\<close> is the closure
  returned last (\<^verbatim>\<open>return func() tea.Msg { if len(entries) > 0 ...\<close>), with the slice
  \<open>entries\<close> it has captured as an argument.

  The helper \<^verbatim>\<open>getRequiredNbAPICalls\<close> is not among the sources; it is the first
  argument.

  The permission test is \<^verbatim>\<open>info.Mode()&1<<2 != 0\<close>. In Go \<^verbatim>\<open>&\<close> and \<^verbatim>\<open><<\<close> have
  the same precedence (both stand with \<^verbatim>\<open>*\<close> at level 5 of the language
  specification; in C the shift binds tighter) and operators of one level group from
  the left, so the test is \<^verbatim>\<open>((info.Mode() & 1) << 2) != 0\<close>: it is on bit 0 of the
  mode.

  \<^verbatim>\<open>os.OpenFile\<close> with \<^verbatim>\<open>O_CREATE|O_TRUNC|O_WRONLY\<close> and mode \<^verbatim>\<open>0600\<close> (384) empties an
  existing file and keeps its mode, and creates a missing one with mode
  \<^verbatim>\<open>0600 &^ umask\<close>. The deferred \<^verbatim>\<open>file.Close()\<close> runs when the closure returns after
  the call of \<^verbatim>\<open>os.OpenFile\<close>, whether that call failed or not.
\<close>

definition requestWallabagEntries_func ::
  "(int \<Rightarrow> int \<Rightarrow> int) \<Rightarrow> env \<Rightarrow> int \<Rightarrow> int \<Rightarrow> string \<Rightarrow> string \<Rightarrow> Item list \<Rightarrow> cmd" where
  "requestWallabagEntries_func getRequiredNbAPICalls E nbArticles nbEntriesPerAPICall
       sortField sortOrder entries w =
     (if length entries > 0 then (Msg (wallabagoResponseEntitiesMsg entries), w)
      else
        (let limitArticleByAPICall = nbEntriesPerAPICall;
             nbCalls = getRequiredNbAPICalls nbArticles limitArticleByAPICall
         in case requestPages E limitArticleByAPICall sortField sortOrder
                   (wrap64 (nbCalls + 1)) 1 entries w of
              (Inl err, w) \<Rightarrow>
                (Msg (wallabagoResponseErrorMsg
                   (''Error:'' @ [LF] @ '' couldn't retrieve the entries from wallabag API'')
                   (Some err)), w)
            | (Inr entries, w) \<Rightarrow>
                (let w = emit OpenFile w
                 in case OpenFile_err E of
                      Some err \<Rightarrow>
                        (Msg (wallabagoResponseErrorMsg
                           (''Error:'' @ [LF] @
                            '' couldn't open file to cache Wallabag entries: '' @
                            cacheFilename @ '': '' @ errorText err)
                           (Some err)), emit Close w)
                    | None \<Rightarrow>
                        (let w = w\<lparr>cache :=
                               Some (case cache w of
                                       None \<Rightarrow> \<lparr>mode = 384 AND NOT (umask E), bytes = []\<rparr>
                                     | Some f \<Rightarrow> f\<lparr>bytes := []\<rparr>)\<rparr>;
                             (written, err) = Encode E entries;
                             w = emit (Write written)
                                   (w\<lparr>cache := map_option (\<lambda>f. f\<lparr>bytes := written\<rparr>) (cache w)\<rparr>)
                         in case err of
                              Some err \<Rightarrow>
                                (Msg (wallabagoResponseErrorMsg
                                   (''Error:'' @ [LF] @
                                    '' couldn't decode cache file to Wallabag entries slice: '' @
                                    errorText err)
                                   (Some err)), emit Close w)
                            | None \<Rightarrow>
                                (Msg (wallabagoResponseEntitiesMsg entries), emit Close w)))))"

definition requestWallabagEntries ::
  "(int \<Rightarrow> int \<Rightarrow> int) \<Rightarrow> env \<Rightarrow> int \<Rightarrow> int \<Rightarrow> string \<Rightarrow> string \<Rightarrow> world \<Rightarrow> cmd \<times> world" where
  "requestWallabagEntries getRequiredNbAPICalls E nbArticles nbEntriesPerAPICall
       sortField sortOrder w =
     (let func = requestWallabagEntries_func getRequiredNbAPICalls E nbArticles
                   nbEntriesPerAPICall sortField sortOrder;
          entries = [];
          w = emit Stat w
      in case cache w of
           None \<Rightarrow> (func entries, w)
         | Some info \<Rightarrow>
             if push_bit 2 (mode info AND 1) \<noteq> 0 then
               (\<lambda>w. (Msg (wallabagoResponseErrorMsg
                          (''Error:'' @ [LF] @ '' couldn't read cache file for security reasons'')
                          None), w), w)
             else
               (let w = emit ReadFile w
                in case ReadFile_err E of
                     Some err \<Rightarrow> (func entries, w)
                   | None \<Rightarrow>
                       (case Decode E (bytes info) of
                          (decoded, Some err) \<Rightarrow>
                            (\<lambda>w. (Msg (wallabagoResponseErrorMsg
                                       (''Error:'' @ [LF] @
                                        '' couldn't load the entries from cache'')
                                       (Some err)), w), w)
                        | (decoded, None) \<Rightarrow> (func decoded, w))))"

text \<open>One sync attempt: the call of \<^verbatim>\<open>requestWallabagEntries\<close>, and the run of the
  command it returns.\<close>

definition sync ::
  "(int \<Rightarrow> int \<Rightarrow> int) \<Rightarrow> env \<Rightarrow> int \<Rightarrow> int \<Rightarrow> string \<Rightarrow> string \<Rightarrow> world \<Rightarrow> outcome \<times> world" where
  "sync getRequiredNbAPICalls E nbArticles nbEntriesPerAPICall sortField sortOrder w =
     (case requestWallabagEntries getRequiredNbAPICalls E nbArticles nbEntriesPerAPICall
             sortField sortOrder w of
        (command, w) \<Rightarrow> command w)"

text \<open>\<^verbatim>\<open>requestWallabagEntryUpdate\<close>, \<^verbatim>\<open>requestWallabagAddEntry\<close>,
  \<^verbatim>\<open>requestWallabagEntryDelete\<close> and \<^verbatim>\<open>selectEntryCommand\<close>. The helper
  \<^verbatim>\<open>isValidURL\<close> is not among the sources; it is part of the environment.\<close>

definition requestWallabagEntryUpdate :: "env \<Rightarrow> int \<Rightarrow> int \<Rightarrow> int \<Rightarrow> int \<Rightarrow> cmd" where
  "requestWallabagEntryUpdate E entryID archive starred public w =
     (let w = emit (UpdateRequest entryID archive starred public) w
      in case UpdateEntry E entryID archive starred public of
           (r, Some err) \<Rightarrow>
             (Msg (wallabagoResponseErrorMsg
                (''Error:'' @ [LF] @ '' Couldn't update the selected entry'') (Some err)), w)
         | (r, None) \<Rightarrow>
             (case Unmarshal E r of
                (item, Some err) \<Rightarrow>
                  (Msg (wallabagoResponseErrorMsg
                     (''Error:'' @ [LF] @ '' Response from wallabago is not valid'') (Some err)), w)
              | (item, None) \<Rightarrow> (Msg (wallabagoResponseEntityUpdateMsg item), w)))"

definition requestWallabagAddEntry :: "env \<Rightarrow> string \<Rightarrow> cmd" where
  "requestWallabagAddEntry E url w =
     (if \<not> isValidURL E url then
        (Msg (wallabagoResponseErrorMsg (''Error:'' @ [LF] @ '' Invalid URL'')
           (Some (Error ''invalid URL given''))), w)
      else
        (let w = emit (AddRequest url) w
         in case AddEntry E url of
              (r, Some err) \<Rightarrow>
                (Msg (wallabagoResponseErrorMsg
                   (''Error:'' @ [LF] @ '' Couldn't add the entry'') (Some err)), w)
            | (r, None) \<Rightarrow> (Msg (wallabagoResponseAddEntryMsg r), w)))"

definition requestWallabagEntryDelete :: "env \<Rightarrow> int \<Rightarrow> cmd" where
  "requestWallabagEntryDelete E id' w =
     (let w = emit (DeleteRequest id') w
      in case DeleteEntry E id' of
           Some err \<Rightarrow>
             (Msg (wallabagoResponseErrorMsg
                (''Error:'' @ [LF] @ '' Couldn't add the entry'') (Some err)), w)
         | None \<Rightarrow> (Msg (wallabagoResponseDeleteEntryMsg id'), w))"

definition selectEntryCommand :: "int \<Rightarrow> cmd" where
  "selectEntryCommand selectedRowID w = (Msg (walgotSelectRowMsg selectedRowID), w)"

subsection \<open>The dispatcher\<close>

text \<open>
  The commands \<^verbatim>\<open>Update\<close> itself returns: none, \<^verbatim>\<open>tea.Quit\<close>, or \<^verbatim>\<open>tea.Tick\<close> with
  its delay in seconds and the message its callback gives.

  \<^verbatim>\<open>Update\<close> ends either by returning a model and a command, or by the call of one of
  the four view updaters, whose result it returns. The view updaters of this package
  are not among the sources, so such a call is kept as it stands: which updater, with
  which message and which model. The helper \<^verbatim>\<open>updatedEntryInModel\<close> is not among the
  sources either; it is the first argument. The debug output is left out.
\<close>

datatype tea_cmd = Nil | Quit | Tick nat msg

datatype ('v, 's, 'i) updated =
    Return "('v, 's, 'i) model" tea_cmd
  | updateDialogView msg "('v, 's, 'i) model"
  | updateHelpView msg "('v, 's, 'i) model"
  | updateEntryView msg "('v, 's, 'i) model"
  | updateListView msg "('v, 's, 'i) model"

definition Update ::
  "(('v, 's, 'i) model \<Rightarrow> Item \<Rightarrow> ('v, 's, 'i) model) \<Rightarrow> ('v, 's, 'i) model \<Rightarrow> msg
     \<Rightarrow> ('v, 's, 'i) updated" where
  "Update updatedEntryInModel m msg =
     (if msg = KeyMsg ''ctrl+c'' then Return m Quit
      else if msg = KeyMsg ''?'' \<and> \<not> Reloading m then Return (m\<lparr>CurrentView := ''help''\<rparr>) Nil
      else
        (case (case msg of
                 wallabagoResponseErrorMsg message wallabagoError \<Rightarrow>
                   Inr (m\<lparr>Reloading := False, Dialog := (Dialog m)\<lparr>Message := message\<rparr>\<rparr>)
               | wallabagoResponseEntityUpdateMsg UpdatedEntry \<Rightarrow>
                   Inl (Return (updatedEntryInModel m UpdatedEntry)
                          (Tick 5 (wallabagoResponseClearMsg True)))
               | wallabagoResponseClearMsg v \<Rightarrow>
                   Inr (if v then m\<lparr>UpdateMessage := []\<rparr> else m)
               | walgotSelectRowMsg v \<Rightarrow> Inr (m\<lparr>SelectedID := v\<rparr>)
               | _ \<Rightarrow> Inr m) of
           Inl returned \<Rightarrow> returned
         | Inr m \<Rightarrow>
             if Message (Dialog m) \<noteq> [] then updateDialogView msg m
             else if CurrentView m = ''help'' then updateHelpView msg m
             else if SelectedID m > 0 then updateEntryView msg m
             else updateListView msg m))"


subsection \<open>Package main: the table rows and the filter keys\<close>

record walgotTableFilters_main =
  Archived :: bool
  Starred :: bool
  Unread :: bool

record walgotTableOptions_main =
  Filters :: walgotTableFilters_main

text \<open>The \<^verbatim>\<open>model\<close> struct of \<^verbatim>\<open>main.go\<close>. The viewport and the spinner are widgets
  of the bubbles library; their state is a type parameter.\<close>

record ('v, 's) model_main =
  Table :: table_Model
  Viewport :: 'v
  Entries :: "Item list"
  Ready :: bool
  Reloading :: bool
  SelectedID :: int
  TermSize :: termSize
  CurrentView :: string
  Options :: walgotTableOptions_main
  Spinner :: 's
  TotalEntriesOnServer :: int

text \<open>The rendering primitives \<^verbatim>\<open>getTableRows\<close> calls:
  \<^verbatim>\<open>lipgloss.NewStyle().Bold(true).Render\<close> and \<^verbatim>\<open>Time.Format\<close> (instant, layout).\<close>

record render =
  Bold :: "string \<Rightarrow> string"
  Format :: "int \<Rightarrow> string \<Rightarrow> string"

text \<open>The two marks of the table, as UTF-8: a star (U+2B50) and a check mark (U+2713).\<close>

definition star_mark :: string where
  "star_mark = [char_of (0xE2::nat), char_of (0xAD::nat), char_of (0x90::nat)]"

definition check_mark :: string where
  "check_mark = [char_of (0xE2::nat), char_of (0x9C::nat), char_of (0x93::nat)]"

text \<open>The body of the loop of \<^verbatim>\<open>getTableRows\<close> after the three \<^verbatim>\<open>continue\<close> tests:
  the row appended for one item.\<close>

definition tableRow :: "render \<Rightarrow> Item \<Rightarrow> Row" where
  "tableRow R item =
     (let title = Title item;
          s = (if IsStarred item = 1 then star_mark else '' '');
          a = (if IsArchived item = 1 then check_mark else '' '');
          title = (if IsArchived item = 1 then title else Bold R (Title item))
      in [Itoa (ID item), title, DomainName item, s, a,
          Format R (UpdatedAt item) ''2006-02-01''])"

text \<open>The loop \<^verbatim>\<open>for i := 0; i < len(items); i++\<close>, with \<open>r\<close> the rows appended so far.\<close>

fun getTableRows_loop ::
  "render \<Rightarrow> Item list \<Rightarrow> walgotTableFilters_main \<Rightarrow> Row list \<Rightarrow> Row list" where
  "getTableRows_loop R [] filters r = r"
| "getTableRows_loop R (item # items) filters r =
     (if Unread filters \<and> IsArchived item \<noteq> 0 then getTableRows_loop R items filters r
      else if Starred filters \<and> IsStarred item \<noteq> 1 then getTableRows_loop R items filters r
      else if Archived filters \<and> IsArchived item \<noteq> 1 then getTableRows_loop R items filters r
      else getTableRows_loop R items filters (r @ [tableRow R item]))"

definition getTableRows :: "render \<Rightarrow> Item list \<Rightarrow> walgotTableFilters_main \<Rightarrow> Row list" where
  "getTableRows R items filters = getTableRows_loop R items filters []"

text \<open>\<^verbatim>\<open>m.Table.SetRows\<close>.\<close>

definition SetRows :: "Row list \<Rightarrow> table_Model \<Rightarrow> table_Model" where
  "SetRows r t = t\<lparr>rows := r\<rparr>"

text \<open>\<^verbatim>\<open>listViewFiltersUpdate(msg, m)\<close>: three \<^verbatim>\<open>if\<close> statements in sequence on the key,
  then the rows are computed again. The pointer argument is the model returned.\<close>

definition listViewFiltersUpdate ::
  "render \<Rightarrow> string \<Rightarrow> ('v, 's) model_main \<Rightarrow> ('v, 's) model_main" where
  "listViewFiltersUpdate R key m =
     (let f = Filters (Options m);
          f = (if key = ''u'' then
                 (let f = f\<lparr>Unread := \<not> Unread f\<rparr>
                  in if Unread f then f\<lparr>Archived := False\<rparr> else f)
               else f);
          f = (if key = ''s'' then f\<lparr>Starred := \<not> Starred f\<rparr> else f);
          f = (if key = ''a'' then
                 (let f = f\<lparr>Archived := \<not> Archived f\<rparr>
                  in if Archived f then f\<lparr>Unread := False\<rparr> else f)
               else f);
          m = m\<lparr>Options := (Options m)\<lparr>Filters := f\<rparr>\<rparr>
      in m\<lparr>Table := SetRows (getTableRows R (Entries m) (Filters (Options m))) (Table m)\<rparr>)"

text \<open>\<^verbatim>\<open>initialModel()\<close>; the fields it does not name hold Go's zero values. The new
  spinner and the zero viewport are arguments.\<close>

definition initialModel :: "'s \<Rightarrow> 'v \<Rightarrow> ('v, 's) model_main" where
  "initialModel s v =
     \<lparr>Table = \<lparr>rows = []\<rparr>, Viewport = v, Entries = [], Ready = False, Reloading = True,
      SelectedID = 0, TermSize = \<lparr>Width = 0, Height = 0\<rparr>, CurrentView = ''list'',
      Options = \<lparr>Filters = \<lparr>Archived = False, Starred = False, Unread = True\<rparr>\<rparr>,
      Spinner = s, TotalEntriesOnServer = 0\<rparr>"

subsection \<open>Package main: the request callbacks\<close>

text \<open>
  \<^verbatim>\<open>float64\<close>. The code converts integers to \<^verbatim>\<open>float64\<close>, divides and compares. A
  finite \<^verbatim>\<open>float64\<close> is a rational number; conversion and division give the exact
  result rounded to 53 significant bits, to nearest, ties to even. Every magnitude
  that occurs here is 0 or lies between \<open>2 ^ -63\<close> and \<open>2 ^ 63\<close>, so no result
  overflows or is subnormal.

  \<open>ilog2 x\<close> is the binary exponent of a positive \<open>x\<close>, \<open>float64 x\<close> the
  \<^verbatim>\<open>float64\<close> nearest to \<open>x\<close>.
\<close>

definition round_even :: "rat \<Rightarrow> int" where
  "round_even y =
     (let f = \<lfloor>y\<rfloor>; r = y - of_int f
      in if r < 1 / 2 then f else if 1 / 2 < r then f + 1 else if even f then f else f + 1)"

definition ilog2 :: "rat \<Rightarrow> int" where
  "ilog2 x = (let (a, b) = quotient_of x; d = bitlen a - bitlen b
              in if 2 powi d \<le> x then d else d - 1)"

definition float64 :: "rat \<Rightarrow> rat" where
  "float64 x = (if x = 0 then 0
                else let e = ilog2 \<bar>x\<bar> - 52 in of_int (round_even (x / 2 powi e)) * 2 powi e)"

text \<open>
  The number of calls, as \<^verbatim>\<open>requestWallabagEntries\<close> of \<^verbatim>\<open>main.go\<close> computes it from
  \<^verbatim>\<open>nbArticles\<close> and \<^verbatim>\<open>limitArticleByAPICall\<close>. Go's integer division truncates
  (\<open>sdiv\<close>) and panics on a zero divisor (\<open>None\<close>).
\<close>

definition nbCallsFor :: "int \<Rightarrow> int \<Rightarrow> int option" where
  "nbCallsFor nbArticles limitArticleByAPICall =
     (let nbCalls = 1 in
      if nbArticles > limitArticleByAPICall then
        (if limitArticleByAPICall = 0 then None
         else
           let nbCalls = wrap64 (nbArticles sdiv limitArticleByAPICall) in
           if float64 (of_int nbCalls)
                < float64 (float64 (of_int nbArticles) / float64 (of_int limitArticleByAPICall))
           then Some (wrap64 (nbCalls + 1)) else Some nbCalls)
      else Some nbCalls)"

text \<open>\<^verbatim>\<open>requestWallabagNbEntries\<close> of \<^verbatim>\<open>main.go\<close>.\<close>

definition requestWallabagNbEntries_main :: "env \<Rightarrow> cmd" where
  "requestWallabagNbEntries_main E w =
     (let w = emit NbRequest w
      in case GetNbTotalEntries E of
           (nbArticles, Some e) \<Rightarrow>
             (Exit 1, emit (Println ''Couldn't retrieve entries from wallabag'') w)
         | (nbArticles, None) \<Rightarrow> (Msg (wallabagoResponseNbEntitiesMsg nbArticles), w))"

text \<open>
  The loop of \<^verbatim>\<open>requestWallabagEntries\<close> of \<^verbatim>\<open>main.go\<close>. A failed request is
  printed in verbose mode; whatever items the call returned are appended and the loop
  goes on. The call is \<^verbatim>\<open>wallabago.GetEntries(wallabago.APICall, -1, -1, "updated",
  "desc", i, limitArticleByAPICall, "")\<close>.
\<close>

function requestPages_main ::
  "env \<Rightarrow> int \<Rightarrow> int \<Rightarrow> int \<Rightarrow> Item list \<Rightarrow> world \<Rightarrow> Item list \<times> world" where
  "requestPages_main E limitArticleByAPICall bound i entries w =
     (if i < bound then
        (let w = emit (PageRequest limitArticleByAPICall i ''updated'' ''desc'') w;
             (items, err) = GetEntries E limitArticleByAPICall i ''updated'' ''desc'';
             w = (if err \<noteq> None \<and> verbose E
                  then emit (Println ''Couldn't retrieve some entries from wallabag'') w
                  else w)
         in requestPages_main E limitArticleByAPICall bound (i + 1) (entries @ items) w)
      else (entries, w))"
  by pat_completeness auto
termination
  by (relation "measure (\<lambda>(E, l, bound, i, es, w). nat (bound - i))") auto

text \<open>\<^verbatim>\<open>requestWallabagEntries(nbArticles)\<close> of \<^verbatim>\<open>main.go\<close>: the command it returns.\<close>

definition requestWallabagEntries_main :: "env \<Rightarrow> int \<Rightarrow> cmd" where
  "requestWallabagEntries_main E nbArticles w =
     (let articleByAPICall = 55;
          limitArticleByAPICall = articleByAPICall
      in case nbCallsFor nbArticles limitArticleByAPICall of
           None \<Rightarrow> (Panic, w)
         | Some nbCalls \<Rightarrow>
             (case requestPages_main E limitArticleByAPICall (wrap64 (nbCalls + 1)) 1 [] w of
                (entries, w) \<Rightarrow> (Msg (wallabagoResponseEntitiesMsg entries), w)))"


section \<open>Notions used to state the properties\<close>

text \<open>One sync attempt of package tui is \<open>sync\<close>, defined above. The page numbers
  requested so far, in order, and the sort fields and orders requested so far:\<close>

fun pageOf :: "event \<Rightarrow> int list" where
  "pageOf (PageRequest l i sf so) = [i]"
| "pageOf _ = []"

definition pagesRequested :: "world \<Rightarrow> int list" where
  "pagesRequested w = concat (map pageOf (trace w))"

fun sortOf :: "event \<Rightarrow> (string \<times> string) list" where
  "sortOf (PageRequest l i sf so) = [(sf, so)]"
| "sortOf _ = []"

definition sortsRequested :: "world \<Rightarrow> (string \<times> string) set" where
  "sortsRequested w = set (concat (map sortOf (trace w)))"

text \<open>The sync attempt reaches the paginated fetch: there is no cache file, or the
  permission test lets it through and it cannot be read or holds no entry.\<close>

definition reachesFetch :: "env \<Rightarrow> world \<Rightarrow> bool" where
  "reachesFetch E w =
     (case cache w of
        None \<Rightarrow> True
      | Some info \<Rightarrow>
          push_bit 2 (mode info AND 1) = 0 \<and>
          (ReadFile_err E \<noteq> None \<or> Decode E (bytes info) = ([], None)))"

text \<open>What such an attempt does on the cache file before the fetch.\<close>

definition looked :: "world \<Rightarrow> event list" where
  "looked w = (case cache w of None \<Rightarrow> [Stat] | Some info \<Rightarrow> [Stat, ReadFile])"

text \<open>What the three \<^verbatim>\<open>continue\<close> tests of \<^verbatim>\<open>getTableRows\<close> let through.\<close>

definition shown :: "walgotTableFilters_main \<Rightarrow> Item \<Rightarrow> bool" where
  "shown filters item \<longleftrightarrow>
     (Unread filters \<longrightarrow> IsArchived item = 0) \<and>
     (Starred filters \<longrightarrow> IsStarred item = 1) \<and>
     (Archived filters \<longrightarrow> IsArchived item = 1)"

text \<open>The four views, and the precedence among them in the words of the
  specification: dialog if the dialog message is not empty, else help if the current
  view is help, else detail if an entry is selected, else list.\<close>

datatype view = DialogView | HelpView | DetailView | ListView

definition precedence :: "('v, 's, 'i) model \<Rightarrow> view" where
  "precedence m =
     (if Message (Dialog m) \<noteq> [] then DialogView
      else if model.CurrentView m = ''help'' then HelpView
      else if model.SelectedID m > 0 then DetailView
      else ListView)"

text \<open>The view updaters that a run of \<^verbatim>\<open>Update\<close> calls, each with the message and the
  model it gets.\<close>

fun invoked :: "('v, 's, 'i) updated \<Rightarrow> (view \<times> msg \<times> ('v, 's, 'i) model) list" where
  "invoked (Return m c) = []"
| "invoked (updateDialogView msg m) = [(DialogView, msg, m)]"
| "invoked (updateHelpView msg m) = [(HelpView, msg, m)]"
| "invoked (updateEntryView msg m) = [(DetailView, msg, m)]"
| "invoked (updateListView msg m) = [(ListView, msg, m)]"


section \<open>Concrete inputs\<close>

text \<open>The values on which the properties are evaluated.\<close>

text \<open>A rendering used to evaluate the functions on concrete entries: bold text is
  left as it is, and every date is shown as the layout.\<close>

definition plain :: render where
  "plain = \<lparr>Bold = (\<lambda>s. s), Format = (\<lambda>t layout. layout)\<rparr>"

definition entry1 :: Item where
  "entry1 = \<lparr>ID = 1, Title = ''one'', DomainName = ''a.org'', Content = [],
     IsArchived = 0, IsStarred = 1, UpdatedAt = 0\<rparr>"

definition entry2 :: Item where
  "entry2 = \<lparr>ID = 2, Title = ''two'', DomainName = ''b.org'', Content = [],
     IsArchived = 1, IsStarred = 0, UpdatedAt = 0\<rparr>"

text \<open>A server that answers every page request with one entry, whose ID is the page
  number; a cache file decodes to \<open>entry1\<close> unless it is empty.\<close>

definition pageEntry :: "int \<Rightarrow> Item" where
  "pageEntry i = \<lparr>ID = i, Title = [], DomainName = [], Content = [],
     IsArchived = 0, IsStarred = 0, UpdatedAt = 0\<rparr>"

definition server :: env where
  "server =
     \<lparr>GetNbTotalEntries = (120, None),
      GetEntries = (\<lambda>perPage page sort order'. ([pageEntry page], None)),
      UpdateEntry = (\<lambda>entryID archive starred public. ([], None)),
      AddEntry = (\<lambda>url. (entry1, None)),
      DeleteEntry = (\<lambda>entryID. None),
      Unmarshal = (\<lambda>r. (entry1, None)),
      isValidURL = (\<lambda>url. True),
      ReadFile_err = None,
      OpenFile_err = None,
      Decode = (\<lambda>content. if content = [] then ([], Some (Error ''EOF'')) else ([entry1], None)),
      Encode = (\<lambda>entries. ([1], None)),
      umask = 18,
      verbose = False\<rparr>"

text \<open>The same server when the request of page 2 fails.\<close>

definition server2 :: env where
  "server2 = server\<lparr>GetEntries := (\<lambda>perPage page sort order'.
       if page = 2 then ([], Some (Error ''timeout'')) else ([pageEntry page], None))\<rparr>"

definition noCache :: world where
  "noCache = \<lparr>cache = None, trace = []\<rparr>"

definition cached :: "32 word \<Rightarrow> byte list \<Rightarrow> world" where
  "cached m content = \<lparr>cache = Some \<lparr>mode = m, bytes = content\<rparr>, trace = []\<rparr>"

text \<open>The server when the cache file cannot be opened for writing, and when the
  encoder fails after two bytes.\<close>

definition serverRO :: env where
  "serverRO = server\<lparr>OpenFile_err := Some (Error ''permission denied'')\<rparr>"

definition serverEnc :: env where
  "serverEnc = server\<lparr>Encode := (\<lambda>entries. ([1, 2], Some (Error ''short write'')))\<rparr>"

text \<open>A configuration, and the model \<^verbatim>\<open>NewModel\<close> makes of it.\<close>

definition config0 :: WalgotConfig where
  "config0 = \<lparr>WalgotConfig.NbEntriesPerAPICall = 55, WalgotConfig.DebugMode = False,
     DefaultListViewUnread = True, DefaultListViewStarred = False,
     DefaultListViewPublic = False\<rparr>"

definition model0 :: "(unit, unit, unit) model" where
  "model0 = NewModel () () () config0"

text \<open>The server when the count request fails.\<close>

definition serverDown :: env where
  "serverDown = server\<lparr>GetNbTotalEntries := (0, Some (Error ''timeout''))\<rparr>"

text \<open>The server when the remote calls that change an entry fail, and when the
  answer to an update does not parse and no URL is held valid.\<close>

definition serverOff :: env where
  "serverOff = server\<lparr>UpdateEntry := (\<lambda>entryID archive starred public.
                          ([], Some (Error ''timeout''))),
                       AddEntry := (\<lambda>url. (entry1, Some (Error ''timeout''))),
                       DeleteEntry := (\<lambda>entryID. Some (Error ''timeout''))\<rparr>"

definition serverBad :: env where
  "serverBad = server\<lparr>Unmarshal := (\<lambda>r. (entry1, Some (Error ''unexpected end of JSON input''))),
                       isValidURL := (\<lambda>url. False)\<rparr>"

text \<open>A model with a dialog message and a selected entry.\<close>

definition model1 :: "(unit, unit, unit) model" where
  "model1 =
     model0\<lparr>Dialog := (Dialog model0)\<lparr>Message := ''Delete?''\<rparr>, model.SelectedID := 7\<rparr>"


section \<open>Properties\<close>

subsection \<open>The number of calls is the ceiling of the quotient\<close>

text \<open>First the arithmetic of \<open>float64\<close>: the exponent, exactness on integers below
  \<open>2 ^ 53\<close>, and the comparison of a quotient with its integer part.\<close>

lemma bitlen_powi:
  fixes a :: int
  assumes "0 < a"
  shows "(2::rat) powi (bitlen a - 1) \<le> of_int a" "of_int a < (2::rat) powi (bitlen a)"
proof -
  from bitlen_bounds [OF assms]
  have lo: "2 ^ nat (bitlen a - 1) \<le> a" and hi: "a < 2 ^ nat (bitlen a)" by auto
  have pos: "1 \<le> bitlen a"
    using assms bitlen_nonneg [of a] bitlen_eq_zero_iff [of a] by (cases "bitlen a = 0") auto
  have "(2::rat) powi (bitlen a - 1) = 2 ^ nat (bitlen a - 1)"
    using pos by (simp add: power_int_def)
  also have "\<dots> = of_int (2 ^ nat (bitlen a - 1))" by simp
  also have "\<dots> \<le> of_int a" using lo by (simp only: of_int_le_iff)
  finally show "(2::rat) powi (bitlen a - 1) \<le> of_int a" .
  have "(of_int a :: rat) < of_int (2 ^ nat (bitlen a))" using hi by (simp only: of_int_less_iff)
  also have "\<dots> = 2 ^ nat (bitlen a)" by simp
  also have "\<dots> = (2::rat) powi (bitlen a)" using pos by (simp add: power_int_def)
  finally show "of_int a < (2::rat) powi (bitlen a)" .
qed

lemma ilog2_bounds:
  assumes "0 < x"
  shows "2 powi (ilog2 x) \<le> x \<and> x < 2 powi (ilog2 x + 1)"
proof -
  obtain a b where q: "quotient_of x = (a, b)" by (cases "quotient_of x")
  have b: "0 < b" using q by (rule quotient_of_denom_pos)
  have x: "x = of_int a / of_int b" using q by (rule quotient_of_div)
  have a: "0 < a" using assms b x by (simp add: zero_less_divide_iff)
  define d where "d = bitlen a - bitlen b"
  note A = bitlen_powi [OF a] and B = bitlen_powi [OF b]
  have bpos: "(0::rat) < of_int b" using b by simp
  have up: "x < 2 powi (d + 1)"
  proof -
    have "of_int a < (2::rat) powi (bitlen a)" by (rule A)
    also have "\<dots> = 2 powi (d + 1) * 2 powi (bitlen b - 1)"
      by (simp add: d_def flip: power_int_add)
    also have "\<dots> \<le> 2 powi (d + 1) * of_int b"
      using B(1) by (intro mult_left_mono) auto
    finally show ?thesis using bpos by (simp add: x pos_divide_less_eq)
  qed
  have lo: "2 powi (d - 1) \<le> x"
  proof -
    have "(2::rat) powi (d - 1) * of_int b \<le> 2 powi (d - 1) * 2 powi (bitlen b)"
      using B(2) by (intro mult_left_mono) auto
    also have "\<dots> = 2 powi (bitlen a - 1)"
      by (simp add: d_def flip: power_int_add)
    also have "\<dots> \<le> of_int a" by (rule A)
    finally show ?thesis using bpos by (simp add: x pos_le_divide_eq)
  qed
  show ?thesis
  proof (cases "2 powi d \<le> x")
    case True
    then have "ilog2 x = d" by (simp add: ilog2_def q d_def)
    then show ?thesis using True up by simp
  next
    case False
    then have "ilog2 x = d - 1" by (simp add: ilog2_def q d_def)
    then show ?thesis using False lo by simp
  qed
qed

lemma round_even_of_int: "round_even (of_int m) = m"
  by (simp add: round_even_def)

lemma round_even_gt:
  assumes "of_int m + 1 / 2 < y"
  shows "m < round_even y"
proof -
  have fl: "m \<le> \<lfloor>y\<rfloor>" using assms by (simp add: le_floor_iff) 
  show ?thesis
  proof (cases "m = \<lfloor>y\<rfloor>")
    case True
    then have "1 / 2 < y - of_int \<lfloor>y\<rfloor>" using assms by simp
    then show ?thesis using True by (simp add: round_even_def Let_def)
  next
    case False
    then have "m < \<lfloor>y\<rfloor>" using fl by simp
    then show ?thesis by (auto simp: round_even_def Let_def)
  qed
qed

lemma powi2_less_imp_less:
  assumes "(2::rat) powi m < 2 powi n"
  shows "m < n"
proof (rule ccontr)
  assume "\<not> m < n"
  then have "n \<le> m" by simp
  then have "(2::rat) powi n \<le> 2 powi m" by (intro power_int_increasing) auto
  then show False using assms by simp
qed

lemma ilog2_eqI:
  assumes "2 powi k \<le> x" "x < 2 powi (k + 1)"
  shows "ilog2 x = k"
proof -
  have "(0::rat) < 2 powi k" by simp
  then have x: "0 < x" using assms(1) by (rule less_le_trans)
  from ilog2_bounds [OF x] have b: "2 powi (ilog2 x) \<le> x" "x < 2 powi (ilog2 x + 1)" by auto
  have "2 powi k < (2::rat) powi (ilog2 x + 1)" using assms(1) b(2) by simp
  then have 1: "k < ilog2 x + 1" by (rule powi2_less_imp_less)
  have "2 powi (ilog2 x) < (2::rat) powi (k + 1)" using assms(2) b(1) by simp
  then have 2: "ilog2 x < k + 1" by (rule powi2_less_imp_less)
  show ?thesis using 1 2 by simp
qed

lemma ilog2_int_range:
  assumes "1 \<le> q" "q < 2 ^ 53"
  shows "0 \<le> ilog2 (of_int q)" "ilog2 (of_int q) \<le> 52"
proof -
  let ?k = "ilog2 (of_int q)"
  have pos: "(0::rat) < of_int q" using assms(1) by simp
  from ilog2_bounds [OF pos]
  have b: "2 powi ?k \<le> (of_int q :: rat)" "(of_int q :: rat) < 2 powi (?k + 1)" by auto
  have "(2::rat) powi 0 \<le> of_int q" using assms(1) by simp
  then have "(2::rat) powi 0 < 2 powi (?k + 1)" using b(2) by (rule le_less_trans)
  then have "0 < ?k + 1" by (rule powi2_less_imp_less)
  then show "0 \<le> ?k" by simp
  have "(of_int q :: rat) < of_int (2 ^ 53)" using assms(2) by (simp only: of_int_less_iff)
  then have "(of_int q :: rat) < 2 powi 53" by simp
  with b(1) have "(2::rat) powi ?k < 2 powi 53" by (rule le_less_trans)
  then have "?k < 53" by (rule powi2_less_imp_less)
  then show "?k \<le> 52" by simp
qed

text \<open>With the exponent known, rounding is rounding of a multiple.\<close>

lemma float64_scaled:
  assumes "0 < x" "ilog2 x = k" "k \<le> 52"
  shows "float64 x = of_int (round_even (x * of_int (2 ^ nat (52 - k)))) / of_int (2 ^ nat (52 - k))"
proof -
  have e: "(2::rat) powi (k - 52) = 1 / of_int (2 ^ nat (52 - k))"
  proof -
    have "(2::rat) powi (k - 52) = 2 powi (- (52 - k))" by simp
    also have "\<dots> = inverse (2 powi (52 - k))" by (simp only: power_int_minus)
    also have "\<dots> = inverse (2 ^ nat (52 - k))" using assms(3) by (simp add: power_int_def)
    finally show ?thesis by (simp add: field_simps)
  qed
  have "\<bar>x\<bar> = x" using assms(1) by simp
  then show ?thesis using assms(1,2) by (simp add: float64_def Let_def e)
qed

lemma float64_of_int_exact:
  assumes "1 \<le> q" "q < 2 ^ 53"
  shows "float64 (of_int q) = of_int q"
proof -
  define k where "k = ilog2 (of_int q)"
  have k: "k \<le> 52" using ilog2_int_range [OF assms] by (simp add: k_def)
  have pos: "(0::rat) < of_int q" using assms(1) by simp
  have "float64 (of_int q) =
      of_int (round_even (of_int q * of_int (2 ^ nat (52 - k)))) / of_int (2 ^ nat (52 - k))"
    using pos k by (intro float64_scaled) (simp_all add: k_def)
  also have "of_int q * (of_int (2 ^ nat (52 - k)) :: rat) = of_int (q * 2 ^ nat (52 - k))"
    by simp
  also have "round_even (of_int (q * 2 ^ nat (52 - k))) = q * 2 ^ nat (52 - k)"
    by (rule round_even_of_int)
  finally show ?thesis by simp
qed

lemma float64_quotient_gt:
  assumes P: "0 < P" and N: "N < 2 ^ 53" and q: "1 \<le> N div P" and r: "N mod P \<noteq> 0"
  shows "of_int (N div P) < float64 (of_int N / of_int P)"
proof -
  define q where "q = N div P"
  define r where "r = N mod P"
  define k where "k = ilog2 (of_int q)"
  define s :: int where "s = 2 ^ nat (52 - k)"
  have q1: "1 \<le> q" using q by (simp add: q_def)
  have "0 \<le> N mod P" "N mod P < P" using P by simp_all
  then have rpos: "1 \<le> r" "r < P" using r by (simp_all add: r_def)
  have Neq: "N = q * P + r" by (simp add: q_def r_def)
  have qP: "q * P \<le> N" using rpos Neq by simp
  have "q * 1 \<le> q * P" using P q1 by (intro mult_left_mono) auto
  then have qN: "q < 2 ^ 53" using qP N by simp
  have krange: "0 \<le> k" "k \<le> 52" using ilog2_int_range [OF q1 qN] by (simp_all add: k_def)
  have qpos: "(0::rat) < of_int q" using q1 by simp
  from ilog2_bounds [OF qpos]
  have b: "2 powi k \<le> (of_int q :: rat)" "(of_int q :: rat) < 2 powi (k + 1)"
    by (auto simp: k_def)
  have spos: "0 < s" by (simp add: s_def)
  define x :: rat where "x = of_int N / of_int P"
  have Ppos: "(0::rat) < of_int P" using P by simp
  have xeq: "x = of_int q + of_int r / of_int P"
    using Ppos by (simp add: x_def Neq field_simps)
  have xlo: "of_int q \<le> x" using rpos Ppos by (simp add: xeq)
  have xhi: "x < of_int q + 1" using rpos Ppos by (simp add: xeq)
  have xpos: "0 < x" using qpos xlo by simp
  \<comment> \<open>the quotient has the exponent of its integer part\<close>
  have powk: "(2::rat) powi (k + 1) = of_int (2 ^ nat (k + 1))"
    using krange by (simp add: power_int_def)
  have "q < 2 ^ nat (k + 1)" using b(2) unfolding powk by (simp only: of_int_less_iff)
  then have "q + 1 \<le> 2 ^ nat (k + 1)" by simp
  then have "(of_int (q + 1) :: rat) \<le> of_int (2 ^ nat (k + 1))" by (simp only: of_int_le_iff)
  then have "x < 2 powi (k + 1)" using xhi unfolding powk by simp
  moreover have "2 powi k \<le> x" using b(1) xlo by simp
  ultimately have kx: "ilog2 x = k" by (intro ilog2_eqI)
  have fx: "float64 x = of_int (round_even (x * of_int s)) / of_int s"
    unfolding s_def using xpos kx krange(2) by (rule float64_scaled)
  \<comment> \<open>the divisor is below twice the scale\<close>
  have "(2::rat) powi k = of_int (2 ^ nat k)" using krange by (simp add: power_int_def)
  then have "2 ^ nat k \<le> q" using b(1) by (simp only: of_int_le_iff)
  then have "2 ^ nat k * P \<le> q * P" using P by (intro mult_right_mono) auto
  then have "2 ^ nat k * P < 2 ^ 53" using qP N by simp
  also have "(2::int) ^ 53 = 2 ^ nat k * (2 * s)"
  proof -
    have "nat k + (1 + nat (52 - k)) = 53" using krange by simp
    then have "(2::int) ^ 53 = 2 ^ (nat k + (1 + nat (52 - k)))" by simp
    then show ?thesis by (simp add: s_def power_add)
  qed
  finally have P2s: "P < 2 * s" by simp
  \<comment> \<open>so the scaled quotient lies more than one half above the scaled integer part\<close>
  have "of_int P < (2::rat) * of_int s" using P2s by (metis of_int_less_iff of_int_mult of_int_numeral)
  also have "\<dots> \<le> 2 * (of_int r * of_int s)" using rpos spos by (simp add: mult_le_cancel_right1)
  finally have "1 / 2 < of_int r * of_int s / (of_int P :: rat)" using Ppos by (simp add: field_simps)
  then have "of_int (q * s) + 1 / 2 < x * of_int s"
    by (simp add: xeq algebra_simps add_divide_distrib)
  then have "q * s < round_even (x * of_int s)" by (rule round_even_gt)
  then have "of_int (q * s) < (of_int (round_even (x * of_int s)) :: rat)"
    by (simp only: of_int_less_iff)
  then have "of_int q < (of_int (round_even (x * of_int s)) :: rat) / of_int s"
    using spos by (simp add: pos_less_divide_eq)
  then have "of_int q < float64 x" by (simp only: fx)
  then show ?thesis unfolding q_def x_def .
qed

lemma wrap64_id: "- (2 ^ 63) \<le> x \<Longrightarrow> x < 2 ^ 63 \<Longrightarrow> wrap64 x = x"
  by (simp add: wrap64_def)

lemma div_ge_one:
  fixes N P :: int
  assumes "0 < P" "P < N"
  shows "1 \<le> N div P"
proof -
  have "0 < N div P" using assms by (simp add: pos_imp_zdiv_pos_iff)
  then show ?thesis by simp
qed

lemma div_le_dividend_int:
  fixes N P :: int
  assumes "0 < P" "0 \<le> N"
  shows "N div P \<le> N"
proof -
  have q: "0 \<le> N div P" using assms by (simp add: pos_imp_zdiv_nonneg_iff)
  have "0 \<le> N mod P" using assms(1) by simp
  moreover have "N = N div P * P + N mod P" by simp
  ultimately have "N div P * P \<le> N" by linarith
  moreover have "N div P * 1 \<le> N div P * P" using q assms(1) by (intro mult_left_mono) auto
  ultimately show ?thesis by simp
qed

lemma ceiling_div_pos:
  assumes "0 < P"
  shows "\<lceil>(of_int N :: rat) / of_int P\<rceil> = (if N mod P = 0 then N div P else N div P + 1)"
proof -
  have "\<lceil>(of_int N :: rat) / of_int P\<rceil> = - (- N div P)" by (rule ceiling_divide_eq_div)
  also have "\<dots> = (if N mod P = 0 then N div P else N div P + 1)"
    using assms by (simp add: zdiv_zminus1_eq_if)
  finally show ?thesis .
qed

lemma float64_test:
  assumes P: "0 < P" and PN: "P < N" and N: "N < 2 ^ 53"
  shows "float64 (of_int (N div P)) < float64 (float64 (of_int N) / float64 (of_int P))
         \<longleftrightarrow> N mod P \<noteq> 0"
proof -
  have q1: "1 \<le> N div P" using P PN by (rule div_ge_one)
  have "N div P \<le> N" using P PN by (intro div_le_dividend_int) simp_all
  then have qN: "N div P < 2 ^ 53" using N by simp
  have fN: "float64 (of_int N) = of_int N" using P PN N by (intro float64_of_int_exact) simp_all
  have fP: "float64 (of_int P) = of_int P" using P PN N by (intro float64_of_int_exact) simp_all
  have fq: "float64 (of_int (N div P)) = of_int (N div P)"
    using q1 qN by (rule float64_of_int_exact)
  show ?thesis
  proof (cases "N mod P = 0")
    case True
    have "N = N div P * P + N mod P" by simp
    then have "N = N div P * P" using True by simp
    then have "(of_int N :: rat) = of_int (N div P) * of_int P"
      by (metis of_int_mult)
    then have "(of_int N :: rat) / of_int P = of_int (N div P)"
      using P by simp
    then show ?thesis using True by (simp add: fN fP)
  next
    case False
    from float64_quotient_gt [OF P N q1 False] show ?thesis using False by (simp add: fN fP fq)
  qed
qed

lemma nbCallsFor_eq:
  assumes "0 < P" "N < 2 ^ 53"
  shows "nbCallsFor N P = Some (if N \<le> 0 then 1 else \<lceil>(of_int N :: rat) / of_int P\<rceil>)"
proof (cases "P < N")
  case False
  show ?thesis
  proof (cases "N \<le> 0")
    case True
    then show ?thesis using False by (simp add: nbCallsFor_def)
  next
    case N0: False
    have "(of_int N :: rat) / of_int P \<le> 1" using False assms(1) by simp
    moreover have "0 < (of_int N :: rat) / of_int P" using N0 assms(1) by simp
    ultimately have "\<lceil>(of_int N :: rat) / of_int P\<rceil> = 1" by (simp add: ceiling_eq_iff)
    then show ?thesis using False N0 by (simp add: nbCallsFor_def)
  qed
next
  case True
  have q1: "1 \<le> N div P" using assms(1) True by (rule div_ge_one)
  have "N div P \<le> N" using assms(1) True by (intro div_le_dividend_int) simp_all
  then have qN: "N div P < 2 ^ 53" using assms(2) by simp
  have sd: "N sdiv P = N div P" using assms(1) True by (simp add: signed_divide_int_def)
  have w1: "wrap64 (N div P) = N div P" using q1 qN by (intro wrap64_id) simp_all
  have w2: "wrap64 (N div P + 1) = N div P + 1" using q1 qN by (intro wrap64_id) simp_all
  have N0: "\<not> N \<le> 0" using assms(1) True by simp
  show ?thesis
    using True assms(1) N0
    by (simp add: nbCallsFor_def sd w1 w2 float64_test [OF assms(1) True assms(2)]
        ceiling_div_pos [OF assms(1)])
qed

subsection \<open>The two loops, and the steps of a sync attempt\<close>

lemma pagesRequested_emit [simp]:
  "pagesRequested (emit ev w) = pagesRequested w @ pageOf ev"
  by (simp add: pagesRequested_def emit_def)

lemma cache_emit [simp]: "cache (emit ev w) = cache w"
  by (simp add: emit_def)

lemma trace_emit [simp]: "trace (emit ev w) = trace w @ [ev]"
  by (simp add: emit_def)

lemmas [simp del] = requestPages_main.simps requestPages.simps

lemma requestPages_main_stop:
  "\<not> i < bound \<Longrightarrow> requestPages_main E l bound i es w = (es, w)"
  by (simp add: requestPages_main.simps [of E l bound i])

lemma requestPages_main_step:
  "i < bound \<Longrightarrow>
   requestPages_main E l bound i es w =
     requestPages_main E l bound (i + 1) (es @ fst (GetEntries E l i ''updated'' ''desc''))
       (if snd (GetEntries E l i ''updated'' ''desc'') \<noteq> None \<and> verbose E
        then emit (Println ''Couldn't retrieve some entries from wallabag'')
               (emit (PageRequest l i ''updated'' ''desc'') w)
        else emit (PageRequest l i ''updated'' ''desc'') w)"
  by (subst requestPages_main.simps) (simp add: Let_def split: prod.splits)

lemma requestPages_main_eq:
  "fst (requestPages_main E l bound i es w) =
     es @ concat (map (\<lambda>j. fst (GetEntries E l j ''updated'' ''desc'')) [i..bound - 1])
   \<and> pagesRequested (snd (requestPages_main E l bound i es w)) =
       pagesRequested w @ [i..bound - 1]
   \<and> cache (snd (requestPages_main E l bound i es w)) = cache w"
proof (induction "nat (bound - i)" arbitrary: i es w)
  case 0
  then have "\<not> i < bound" by simp
  then show ?case by (simp add: requestPages_main_stop)
next
  case (Suc n)
  then have lt: "i < bound" by simp
  have n: "n = nat (bound - (i + 1))" using Suc.hyps(2) by simp
  have up: "[i..bound - 1] = i # [i + 1..bound - 1]" using lt by (simp add: upto_rec1)
  show ?case
    unfolding requestPages_main_step [OF lt] up
    using Suc.hyps(1) [OF n] by simp
qed

lemma requestPages_stop:
  "\<not> i < bound \<Longrightarrow> requestPages E l sf so bound i es w = (Inr es, w)"
  by (simp add: requestPages.simps [of E l sf so bound i])

lemma requestPages_fail:
  "i < bound \<Longrightarrow> snd (GetEntries E l i sf so) = Some err \<Longrightarrow>
   requestPages E l sf so bound i es w = (Inl err, emit (PageRequest l i sf so) w)"
  by (subst requestPages.simps) (auto simp: Let_def split: prod.splits option.splits)

lemma requestPages_step:
  "i < bound \<Longrightarrow> snd (GetEntries E l i sf so) = None \<Longrightarrow>
   requestPages E l sf so bound i es w =
     requestPages E l sf so bound (i + 1) (es @ fst (GetEntries E l i sf so))
       (emit (PageRequest l i sf so) w)"
  by (subst requestPages.simps) (auto simp: Let_def split: prod.splits option.splits)

text \<open>Every request succeeds: all pages, in order.\<close>

lemma requestPages_all:
  assumes "\<forall>j. i \<le> j \<and> j < bound \<longrightarrow> snd (GetEntries E l j sf so) = None"
  shows "requestPages E l sf so bound i es w =
     (Inr (es @ concat (map (\<lambda>j. fst (GetEntries E l j sf so)) [i..bound - 1])),
      w\<lparr>trace := trace w @ map (\<lambda>j. PageRequest l j sf so) [i..bound - 1]\<rparr>)"
  using assms
proof (induction "nat (bound - i)" arbitrary: i es w)
  case 0
  then have "\<not> i < bound" by simp
  then show ?case by (simp add: requestPages_stop)
next
  case (Suc n)
  then have lt: "i < bound" by simp
  have n: "n = nat (bound - (i + 1))" using Suc.hyps(2) by simp
  have up: "[i..bound - 1] = i # [i + 1..bound - 1]" using lt by (simp add: upto_rec1)
  have ok: "snd (GetEntries E l i sf so) = None" using Suc.prems lt by simp
  have rest: "\<forall>j. i + 1 \<le> j \<and> j < bound \<longrightarrow> snd (GetEntries E l j sf so) = None"
    using Suc.prems by simp
  show ?case
    unfolding requestPages_step [OF lt ok] up
    using Suc.hyps(1) [OF n rest] by (simp add: emit_def)
qed

text \<open>Some request fails: the loop stops at the first one that does.\<close>

lemma requestPages_first_failure:
  assumes "i \<le> k" "k < bound" "snd (GetEntries E l k sf so) = Some err"
    and "\<forall>j. i \<le> j \<and> j < k \<longrightarrow> snd (GetEntries E l j sf so) = None"
  shows "requestPages E l sf so bound i es w =
     (Inl err, w\<lparr>trace := trace w @ map (\<lambda>j. PageRequest l j sf so) [i..k]\<rparr>)"
  using assms
proof (induction "nat (k - i)" arbitrary: i es w)
  case 0
  then have ik: "i = k" by simp
  show ?case using 0 by (simp add: ik requestPages_fail emit_def)
next
  case (Suc n)
  then have lt: "i < k" by simp
  then have ltb: "i < bound" using Suc.prems by simp
  have n: "n = nat (k - (i + 1))" using Suc.hyps(2) by simp
  have up: "[i..k] = i # [i + 1..k]" using lt by (simp add: upto_rec1)
  have ok: "snd (GetEntries E l i sf so) = None" using Suc.prems lt by simp
  have rest: "\<forall>j. i + 1 \<le> j \<and> j < k \<longrightarrow> snd (GetEntries E l j sf so) = None"
    using Suc.prems by simp
  have ik: "i + 1 \<le> k" using lt by simp
  show ?case
    unfolding requestPages_step [OF ltb ok] up
    using Suc.hyps(1) [OF n ik Suc.prems(2,3) rest] by (simp add: emit_def)
qed

lemma sync_reachesFetch:
  assumes "reachesFetch E w"
  shows "sync h E N P sf so w =
           requestWallabagEntries_func h E N P sf so [] (w\<lparr>trace := trace w @ looked w\<rparr>)"
  using assms
  by (auto simp: reachesFetch_def looked_def sync_def requestWallabagEntries_def Let_def emit_def
      split: option.splits prod.splits)

lemma sync_cached:
  assumes "cache w = Some info" "push_bit 2 (mode info AND 1) = 0"
    "ReadFile_err E = None" "Decode E (bytes info) = (es, None)" "es \<noteq> []"
  shows "sync h E N P sf so w =
     (Msg (wallabagoResponseEntitiesMsg es), w\<lparr>trace := trace w @ [Stat, ReadFile]\<rparr>)"
  using assms
  by (simp add: sync_def requestWallabagEntries_def requestWallabagEntries_func_def Let_def emit_def)

lemma sync_undecodable:
  assumes "cache w = Some info" "push_bit 2 (mode info AND 1) = 0"
    "ReadFile_err E = None" "Decode E (bytes info) = (d, Some err)"
  shows "sync h E N P sf so w =
     (Msg (wallabagoResponseErrorMsg
        (''Error:'' @ [LF] @ '' couldn't load the entries from cache'') (Some err)),
      w\<lparr>trace := trace w @ [Stat, ReadFile]\<rparr>)"
  using assms by (simp add: sync_def requestWallabagEntries_def Let_def emit_def)

lemma pages_first_failure:
  assumes calls: "- (2 ^ 63) \<le> c" "c < 2 ^ 63 - 1"
    and k: "1 \<le> k" "k \<le> c" "snd (GetEntries E P k sf so) = Some err"
    and first: "\<forall>j. 1 \<le> j \<and> j < k \<longrightarrow> snd (GetEntries E P j sf so) = None"
  shows "requestPages E P sf so (wrap64 (c + 1)) 1 [] w =
     (Inl err, w\<lparr>trace := trace w @ map (\<lambda>j. PageRequest P j sf so) [1..k]\<rparr>)"
proof -
  have b: "wrap64 (c + 1) = c + 1" using calls by (simp add: wrap64_id)
  have kb: "k < c + 1" using k(2) by simp
  show ?thesis unfolding b by (rule requestPages_first_failure [OF k(1) kb k(3) first])
qed

lemma pages_ok:
  assumes calls: "- (2 ^ 63) \<le> c" "c < 2 ^ 63 - 1"
    and ok: "\<forall>j. 1 \<le> j \<and> j \<le> c \<longrightarrow> snd (GetEntries E P j sf so) = None"
  shows "requestPages E P sf so (wrap64 (c + 1)) 1 [] w =
     (Inr (concat (map (\<lambda>j. fst (GetEntries E P j sf so)) [1..c])),
      w\<lparr>trace := trace w @ map (\<lambda>j. PageRequest P j sf so) [1..c]\<rparr>)"
proof -
  have b: "wrap64 (c + 1) = c + 1" using calls by (simp add: wrap64_id)
  have ok': "\<forall>j. 1 \<le> j \<and> j < c + 1 \<longrightarrow> snd (GetEntries E P j sf so) = None"
    using ok by simp
  show ?thesis unfolding b using requestPages_all [OF ok', of "[]" w] by simp
qed

lemma func_page_failure:
  assumes hc: "h N P = c" and calls: "- (2 ^ 63) \<le> c" "c < 2 ^ 63 - 1"
    and k: "1 \<le> k" "k \<le> c" "snd (GetEntries E P k sf so) = Some err"
    and first: "\<forall>j. 1 \<le> j \<and> j < k \<longrightarrow> snd (GetEntries E P j sf so) = None"
  shows "requestWallabagEntries_func h E N P sf so [] w =
     (Msg (wallabagoResponseErrorMsg
        (''Error:'' @ [LF] @ '' couldn't retrieve the entries from wallabag API'') (Some err)),
      w\<lparr>trace := trace w @ map (\<lambda>j. PageRequest P j sf so) [1..k]\<rparr>)"
  unfolding requestWallabagEntries_func_def Let_def hc
  by (simp add: pages_first_failure [OF calls k first])

lemma func_open_fails:
  assumes hc: "h N P = c" and calls: "- (2 ^ 63) \<le> c" "c < 2 ^ 63 - 1"
    and ok: "\<forall>j. 1 \<le> j \<and> j \<le> c \<longrightarrow> snd (GetEntries E P j sf so) = None"
    and op: "OpenFile_err E = Some err"
  shows "requestWallabagEntries_func h E N P sf so [] w =
     (Msg (wallabagoResponseErrorMsg
        (''Error:'' @ [LF] @ '' couldn't open file to cache Wallabag entries: '' @
         cacheFilename @ '': '' @ errorText err) (Some err)),
      w\<lparr>trace := trace w @ map (\<lambda>j. PageRequest P j sf so) [1..c] @ [OpenFile, Close]\<rparr>)"
  unfolding requestWallabagEntries_func_def Let_def hc
  by (simp add: pages_ok [OF calls ok] op emit_def)

lemma func_written:
  assumes hc: "h N P = c" and calls: "- (2 ^ 63) \<le> c" "c < 2 ^ 63 - 1"
    and ok: "\<forall>j. 1 \<le> j \<and> j \<le> c \<longrightarrow> snd (GetEntries E P j sf so) = None"
    and op: "OpenFile_err E = None"
    and enc: "Encode E (concat (map (\<lambda>j. fst (GetEntries E P j sf so)) [1..c])) = (written, e)"
  shows "requestWallabagEntries_func h E N P sf so [] w =
     ((case e of
         Some err \<Rightarrow>
           Msg (wallabagoResponseErrorMsg
             (''Error:'' @ [LF] @ '' couldn't decode cache file to Wallabag entries slice: '' @
              errorText err) (Some err))
       | None \<Rightarrow>
           Msg (wallabagoResponseEntitiesMsg
             (concat (map (\<lambda>j. fst (GetEntries E P j sf so)) [1..c])))),
      w\<lparr>cache := Some (case cache w of
                         None \<Rightarrow> \<lparr>mode = 384 AND NOT (umask E), bytes = written\<rparr>
                       | Some f \<Rightarrow> f\<lparr>bytes := written\<rparr>),
        trace := trace w @ map (\<lambda>j. PageRequest P j sf so) [1..c] @
                 [OpenFile, Write written, Close]\<rparr>)"
  unfolding requestWallabagEntries_func_def Let_def hc
  by (simp add: pages_ok [OF calls ok] op enc emit_def split: option.splits)

text \<open>Among the pages that fail there is a first one.\<close>

lemma first_failing_page:
  fixes fails :: "int \<Rightarrow> bool"
  assumes "1 \<le> k0" "fails k0"
  obtains k where "1 \<le> k" "k \<le> k0" "fails k" "\<forall>j. 1 \<le> j \<and> j < k \<longrightarrow> \<not> fails j"
proof -
  define S where "S = {j. 1 \<le> j \<and> j \<le> k0 \<and> fails j}"
  have sub: "S \<subseteq> {1..k0}" by (auto simp: S_def)
  have fin: "finite S" using sub by (rule finite_subset) simp
  have "k0 \<in> S" using assms by (simp add: S_def)
  then have ne: "S \<noteq> {}" by blast
  define k where "k = Min S"
  have kS: "k \<in> S" unfolding k_def using fin ne by (rule Min_in)
  have least: "\<And>j. j \<in> S \<Longrightarrow> k \<le> j" unfolding k_def using fin by (rule Min_le)
  have k: "1 \<le> k" "k \<le> k0" "fails k" using kS unfolding S_def by blast+
  have "\<forall>j. 1 \<le> j \<and> j < k \<longrightarrow> \<not> fails j"
  proof (intro allI impI notI)
    fix j assume j: "1 \<le> j \<and> j < k" and f: "fails j"
    have "j \<in> S" unfolding S_def using j f k(2) by simp
    then have "k \<le> j" by (rule least)
    then show False using j by simp
  qed
  then show ?thesis using k that by blast
qed

subsection \<open>The rows are the filtered entries, in the order of the entries\<close>

lemma getTableRows_loop_eq:
  "getTableRows_loop R items filters r = r @ map (tableRow R) (filter (shown filters) items)"
  by (induction items arbitrary: r) (auto simp: shown_def)

lemma getTableRows_eq:
  "getTableRows R items filters = map (tableRow R) (filter (shown filters) items)"
  by (simp add: getTableRows_def getTableRows_loop_eq)

lemma Itoa_small [simp]: "Itoa 1 = ''1''" "Itoa 2 = ''2''"
  by (simp_all add: Itoa_def digit_def)

text \<open>
  \<^bold>\<open>C8.\<close> For every entry list and every filter setting, \<^verbatim>\<open>getTableRows\<close> gives
  one row for each entry that passes all active filters, and for no other: with the
  unread filter the archived flag must be 0, with the starred filter the starred flag
  must be 1, with the archived filter the archived flag must be 1. For the entries
  \<open>{id 1, archived 0, starred 1}\<close> and \<open>{id 2, archived 1, starred 0}\<close> the unread filter
  and the starred filter each give the row of id 1 only, the archived filter the row of
  id 2 only.
\<close>

theorem getTableRows_filters:
  "getTableRows R items filters =
     map (tableRow R)
       (filter (\<lambda>item. (Unread filters \<longrightarrow> IsArchived item = 0) \<and>
                       (Starred filters \<longrightarrow> IsStarred item = 1) \<and>
                       (Archived filters \<longrightarrow> IsArchived item = 1)) items)
   \<and> (let e1 = a\<lparr>ID := 1, IsArchived := 0, IsStarred := 1\<rparr>;
           e2 = b\<lparr>ID := 2, IsArchived := 1, IsStarred := 0\<rparr>
       in getTableRows R [e1, e2] \<lparr>Archived = False, Starred = False, Unread = True\<rparr>
            = [tableRow R e1]
        \<and> getTableRows R [e1, e2] \<lparr>Archived = False, Starred = True, Unread = False\<rparr>
            = [tableRow R e1]
        \<and> getTableRows R [e1, e2] \<lparr>Archived = True, Starred = False, Unread = False\<rparr>
            = [tableRow R e2])"
proof -
  have "shown filters = (\<lambda>item. (Unread filters \<longrightarrow> IsArchived item = 0) \<and>
                       (Starred filters \<longrightarrow> IsStarred item = 1) \<and>
                       (Archived filters \<longrightarrow> IsArchived item = 1))"
    by (rule ext) (simp add: shown_def)
  then have general: "getTableRows R items filters =
     map (tableRow R)
       (filter (\<lambda>item. (Unread filters \<longrightarrow> IsArchived item = 0) \<and>
                       (Starred filters \<longrightarrow> IsStarred item = 1) \<and>
                       (Archived filters \<longrightarrow> IsArchived item = 1)) items)"
    using getTableRows_eq [of R items filters] by simp
  show ?thesis
    using general by (simp add: getTableRows_eq shown_def Let_def)
qed

theorem getTableRows_filters_witness:
  "map hd (getTableRows plain [entry1, entry2]
             \<lparr>Archived = False, Starred = False, Unread = True\<rparr>) = [''1'']
   \<and> map hd (getTableRows plain [entry1, entry2]
             \<lparr>Archived = False, Starred = True, Unread = False\<rparr>) = [''1'']
   \<and> map hd (getTableRows plain [entry1, entry2]
             \<lparr>Archived = True, Starred = False, Unread = False\<rparr>) = [''2'']
   \<and> map hd (getTableRows plain [entry1, entry2]
             \<lparr>Archived = False, Starred = False, Unread = False\<rparr>) = [''1'', ''2'']"
  using getTableRows_filters [of plain "[entry1, entry2]"
          "\<lparr>Archived = False, Starred = False, Unread = True\<rparr>" entry1 entry2]
        getTableRows_filters [of plain "[entry1, entry2]"
          "\<lparr>Archived = False, Starred = True, Unread = False\<rparr>" entry1 entry2]
        getTableRows_filters [of plain "[entry1, entry2]"
          "\<lparr>Archived = True, Starred = False, Unread = False\<rparr>" entry1 entry2]
        getTableRows_filters [of plain "[entry1, entry2]"
          "\<lparr>Archived = False, Starred = False, Unread = False\<rparr>" entry1 entry2]
  by (simp add: entry1_def entry2_def tableRow_def)

subsection \<open>Unread and Archived exclude each other\<close>

text \<open>
  \<^bold>\<open>C7.\<close> From a filter state in which Unread and Archived are not both set,
  \<^verbatim>\<open>listViewFiltersUpdate\<close> gives such a state again, whatever the key. The key
  \<open>u\<close> pressed while Unread is off sets Unread and clears Archived, the key \<open>a\<close>
  pressed while Archived is off sets Archived and clears Unread, and the key \<open>s\<close>
  flips Starred and leaves Unread and Archived as they were.
\<close>

theorem listViewFiltersUpdate_exclusive:
  assumes "\<not> (Unread (Filters (Options m)) \<and> Archived (Filters (Options m)))"
  shows "(let f = Filters (Options m);
              f' = Filters (Options (listViewFiltersUpdate R key m))
          in \<not> (Unread f' \<and> Archived f')
           \<and> (key = ''u'' \<and> \<not> Unread f \<longrightarrow> Unread f' \<and> \<not> Archived f')
           \<and> (key = ''a'' \<and> \<not> Archived f \<longrightarrow> Archived f' \<and> \<not> Unread f')
           \<and> (key = ''s'' \<longrightarrow>
                Unread f' = Unread f \<and> Archived f' = Archived f \<and> Starred f' = (\<not> Starred f)))"
  using assms by (auto simp: listViewFiltersUpdate_def Let_def)

theorem listViewFiltersUpdate_exclusive_witness:
  "\<not> (Unread (Filters (Options (initialModel () ()))) \<and>
       Archived (Filters (Options (initialModel () ()))))
   \<and> Archived (Filters (Options (listViewFiltersUpdate plain ''a'' (initialModel () ()))))
   \<and> \<not> Unread (Filters (Options (listViewFiltersUpdate plain ''a'' (initialModel () ()))))
   \<and> Unread (Filters (Options (listViewFiltersUpdate plain ''s'' (initialModel () ()))))
   \<and> Starred (Filters (Options (listViewFiltersUpdate plain ''s'' (initialModel () ()))))"
proof -
  have h: "\<not> (Unread (Filters (Options (initialModel () ()))) \<and>
       Archived (Filters (Options (initialModel () ()))))"
    by (simp add: initialModel_def)
  show ?thesis
    using h listViewFiltersUpdate_exclusive [OF h, of plain "''a''"]
      listViewFiltersUpdate_exclusive [OF h, of plain "''s''"]
    by (simp add: Let_def initialModel_def)
qed

subsection \<open>Facts used throughout\<close>

lemma server_pages_ok [simp]: "snd (GetEntries server P j sf so) = None"
  by (simp add: server_def)

lemma Update_error:
  assumes "text \<noteq> []"
  shows "Update U m (wallabagoResponseErrorMsg text e) =
     updateDialogView (wallabagoResponseErrorMsg text e)
       (m\<lparr>model.Reloading := False, Dialog := (Dialog m)\<lparr>Message := text\<rparr>\<rparr>)"
  using assms by (simp add: Update_def)

subsection \<open>The permission test on the cache file\<close>

text \<open>
  \<^bold>\<open>C1\<close> does not hold of the code. The permission test of
  \<^verbatim>\<open>requestWallabagEntries\<close> is written \<^verbatim>\<open>info.Mode()&1<<2 != 0\<close>. In Go \<^verbatim>\<open>&\<close> and
  \<^verbatim>\<open><<\<close> have the same precedence and group from the left, so the test is on
  \<^verbatim>\<open>(mode & 1) << 2\<close>, the execute bit of others, where the comment under it says
  ``other users have read permission''. So a cache file that others can read (the
  bit of value 4 in the mode) and cannot execute (the bit of value 1), as with mode
  \<^verbatim>\<open>0644\<close>, passes the test: it is read and, when it decodes to a list that is not
  empty, that list is the result of the sync. There is no security error message, and
  no request to the server.
\<close>

theorem cache_gate_world_readable:
  assumes "cache w = Some info" "mode info AND 4 \<noteq> 0" "mode info AND 1 = 0"
    and "ReadFile_err E = None" "Decode E (bytes info) = (es, None)" "es \<noteq> []"
  shows "sync h E N P sf so w =
     (Msg (wallabagoResponseEntitiesMsg es), w\<lparr>trace := trace w @ [Stat, ReadFile]\<rparr>)"
proof -
  have g: "push_bit 2 (mode info AND 1) = 0" using assms(3) by simp
  show ?thesis using assms(1) g assms(4,5,6) by (rule sync_cached)
qed

text \<open>With mode \<^verbatim>\<open>0644\<close> (420):\<close>

theorem cache_gate_world_readable_witness:
  "sync (\<lambda>n p. 3) server 120 55 ''created'' ''desc'' (cached 420 [1]) =
     (Msg (wallabagoResponseEntitiesMsg [entry1]),
      \<lparr>cache = Some \<lparr>mode = 420, bytes = [1]\<rparr>, trace = [Stat, ReadFile]\<rparr>)"
proof -
  have 1: "cache (cached 420 [1]) = Some \<lparr>mode = 420, bytes = [1]\<rparr>"
    by (simp add: cached_def)
  have 2: "mode \<lparr>mode = 420, bytes = [1]\<rparr> AND 4 \<noteq> (0 :: 32 word)" by simp
  have 3: "mode \<lparr>mode = 420, bytes = [1]\<rparr> AND 1 = (0 :: 32 word)" by simp
  have 4: "ReadFile_err server = None" by (simp add: server_def)
  have 5: "Decode server (bytes \<lparr>mode = 420, bytes = [1]\<rparr>) = ([entry1], None)"
    by (simp add: server_def)
  have 6: "[entry1] \<noteq> []" by simp
  show ?thesis
    using cache_gate_world_readable [OF 1 2 3 4 5 6, of "\<lambda>n p. 3" 120 55 "''created''" "''desc''"]
    by (simp add: cached_def)
qed

text \<open>The other way round, a cache file with mode \<^verbatim>\<open>0601\<close> (385), which nobody but its
  owner can read, is turned down.\<close>

lemma cache_other_execute_rejected:
  "(385 :: 32 word) AND 4 = 0
   \<and> sync (\<lambda>n p. 3) server 120 55 ''created'' ''desc'' (cached 385 [1]) =
     (Msg (wallabagoResponseErrorMsg
        (''Error:'' @ [LF] @ '' couldn't read cache file for security reasons'') None),
      \<lparr>cache = Some \<lparr>mode = 385, bytes = [1]\<rparr>, trace = [Stat]\<rparr>)"
  by code_simp

text \<open>The read bit of the group is tested nowhere: a cache file with mode \<^verbatim>\<open>0640\<close>
  (416) is read and used.\<close>

lemma cache_group_readable_used:
  "(416 :: 32 word) AND 32 \<noteq> 0
   \<and> sync (\<lambda>n p. 3) server 120 55 ''created'' ''desc'' (cached 416 [1]) =
     (Msg (wallabagoResponseEntitiesMsg [entry1]),
      \<lparr>cache = Some \<lparr>mode = 416, bytes = [1]\<rparr>, trace = [Stat, ReadFile]\<rparr>)"
  by code_simp

subsection \<open>A cache file that does not decode\<close>

text \<open>
  \<^bold>\<open>C10.\<close> If the cache file exists, the permission test lets it through (as it
  does for mode \<^verbatim>\<open>0600\<close>), the file is read and its content does not decode, the sync
  attempt gives one error message and neither requests a page nor writes the cache:
  its events are the look at the file and the read, and the file stays as it is.
\<close>

theorem cache_undecodable:
  assumes "cache w = Some info" "push_bit 2 (mode info AND 1) = 0"
    "ReadFile_err E = None" "Decode E (bytes info) = (decoded, Some err)"
  shows "sync h E N P sf so w =
     (Msg (wallabagoResponseErrorMsg
        (''Error:'' @ [LF] @ '' couldn't load the entries from cache'') (Some err)),
      w\<lparr>trace := trace w @ [Stat, ReadFile]\<rparr>)"
  using assms by (rule sync_undecodable)

theorem cache_undecodable_witness:
  "sync (\<lambda>n p. 3) server 120 55 ''created'' ''desc'' (cached 384 []) =
     (Msg (wallabagoResponseErrorMsg
        (''Error:'' @ [LF] @ '' couldn't load the entries from cache'') (Some (Error ''EOF''))),
      \<lparr>cache = Some \<lparr>mode = 384, bytes = []\<rparr>, trace = [Stat, ReadFile]\<rparr>)"
proof -
  have 1: "cache (cached 384 []) = Some \<lparr>mode = 384, bytes = []\<rparr>" by (simp add: cached_def)
  have 2: "push_bit 2 (mode \<lparr>mode = 384, bytes = []\<rparr> AND 1) = (0 :: 32 word)" by simp
  have 3: "ReadFile_err server = None" by (simp add: server_def)
  have 4: "Decode server (bytes \<lparr>mode = 384, bytes = []\<rparr>) = ([], Some (Error ''EOF''))"
    by (simp add: server_def)
  show ?thesis
    using cache_undecodable [OF 1 2 3 4, of "\<lambda>n p. 3" 120 55 "''created''" "''desc''"]
    by (simp add: cached_def)
qed

subsection \<open>A page request fails\<close>

text \<open>
  \<^bold>\<open>C2\<close>, as amended. In package tui, for every sync attempt that reaches the
  paginated fetch, if the request of some page among \<open>1..calls\<close> fails, the attempt
  stops at the first page that fails: its result is one message, the error message of
  that request; its events are the look at the cache file and the page requests up to
  that page, so the cache file is neither opened nor written and stays as it is; and
  \<^verbatim>\<open>Update\<close> hands the error message to the dialog updater with a model whose entries
  are those of before. (\<open>calls\<close> is the value of \<^verbatim>\<open>getRequiredNbAPICalls\<close>, below the
  largest \<^verbatim>\<open>int\<close>.)
\<close>

theorem sync_page_failure:
  assumes "reachesFetch E w"
    and "h N P = calls" "- (2 ^ 63) \<le> calls" "calls < 2 ^ 63 - 1"
    and "1 \<le> k0" "k0 \<le> calls" "snd (GetEntries E P k0 sf so) \<noteq> None"
  shows "\<exists>k err. 1 \<le> k \<and> k \<le> k0 \<and> snd (GetEntries E P k sf so) = Some err \<and>
           sync h E N P sf so w =
             (Msg (wallabagoResponseErrorMsg
                (''Error:'' @ [LF] @ '' couldn't retrieve the entries from wallabag API'')
                (Some err)),
              w\<lparr>trace := trace w @ looked w @ map (\<lambda>j. PageRequest P j sf so) [1..k]\<rparr>) \<and>
           cache (snd (sync h E N P sf so w)) = cache w \<and>
           (\<exists>m'. Update U m
                   (wallabagoResponseErrorMsg
                      (''Error:'' @ [LF] @ '' couldn't retrieve the entries from wallabag API'')
                      (Some err)) =
                 updateDialogView
                   (wallabagoResponseErrorMsg
                      (''Error:'' @ [LF] @ '' couldn't retrieve the entries from wallabag API'')
                      (Some err)) m' \<and>
                 model.Entries m' = model.Entries m)"
proof -
  obtain k where k: "1 \<le> k" "k \<le> k0" "snd (GetEntries E P k sf so) \<noteq> None"
    and first: "\<forall>j. 1 \<le> j \<and> j < k \<longrightarrow> \<not> snd (GetEntries E P j sf so) \<noteq> None"
    using first_failing_page [of k0 "\<lambda>j. snd (GetEntries E P j sf so) \<noteq> None"] assms(5,7)
    by blast
  from k(3) obtain err where err: "snd (GetEntries E P k sf so) = Some err" by blast
  have first': "\<forall>j. 1 \<le> j \<and> j < k \<longrightarrow> snd (GetEntries E P j sf so) = None"
    using first by simp
  have kc: "k \<le> calls" using k(2) assms(6) by simp
  let ?text = "''Error:'' @ [LF] @ '' couldn't retrieve the entries from wallabag API''"
  have run: "sync h E N P sf so w =
      (Msg (wallabagoResponseErrorMsg ?text (Some err)),
       w\<lparr>trace := trace w @ looked w @ map (\<lambda>j. PageRequest P j sf so) [1..k]\<rparr>)"
    unfolding sync_reachesFetch [OF assms(1)]
    by (simp add: func_page_failure [where h=h and N=N and P=P, OF assms(2,3,4) k(1) kc err first'])
  have c: "cache (snd (sync h E N P sf so w)) = cache w" by (simp add: run)
  define m' where "m' = m\<lparr>model.Reloading := False, Dialog := (Dialog m)\<lparr>Message := ?text\<rparr>\<rparr>"
  have "?text \<noteq> []" by simp
  then have u: "Update U m (wallabagoResponseErrorMsg ?text (Some err)) =
      updateDialogView (wallabagoResponseErrorMsg ?text (Some err)) m'"
    unfolding m'_def by (rule Update_error)
  have e: "model.Entries m' = model.Entries m" by (simp add: m'_def)
  have inner: "\<exists>m'. Update U m (wallabagoResponseErrorMsg ?text (Some err)) =
                 updateDialogView (wallabagoResponseErrorMsg ?text (Some err)) m' \<and>
                 model.Entries m' = model.Entries m"
    by (rule exI [of _ m']) (intro conjI u e)
  show ?thesis
    by (rule exI [of _ k], rule exI [of _ err]) (intro conjI k(1) k(2) err run c inner)
qed


theorem sync_page_failure_witness:
  "(\<exists>k err. 1 \<le> k \<and> k \<le> 2 \<and> snd (GetEntries server2 55 k ''created'' ''desc'') = Some err \<and>
      sync (\<lambda>n p. 3) server2 120 55 ''created'' ''desc'' noCache =
        (Msg (wallabagoResponseErrorMsg
           (''Error:'' @ [LF] @ '' couldn't retrieve the entries from wallabag API'')
           (Some err)),
         noCache\<lparr>trace := trace noCache @ looked noCache @
                    map (\<lambda>j. PageRequest 55 j ''created'' ''desc'') [1..k]\<rparr>) \<and>
      cache (snd (sync (\<lambda>n p. 3) server2 120 55 ''created'' ''desc'' noCache)) = cache noCache \<and>
      (\<exists>m'. Update (\<lambda>m e. m) model0
              (wallabagoResponseErrorMsg
                 (''Error:'' @ [LF] @ '' couldn't retrieve the entries from wallabag API'')
                 (Some err)) =
            updateDialogView
              (wallabagoResponseErrorMsg
                 (''Error:'' @ [LF] @ '' couldn't retrieve the entries from wallabag API'')
                 (Some err)) m' \<and>
            model.Entries m' = model.Entries model0))
   \<and> sync (\<lambda>n p. 3) server2 120 55 ''created'' ''desc'' noCache =
        (Msg (wallabagoResponseErrorMsg
           (''Error:'' @ [LF] @ '' couldn't retrieve the entries from wallabag API'')
           (Some (Error ''timeout''))),
         \<lparr>cache = None,
          trace = [Stat, PageRequest 55 1 ''created'' ''desc'',
                   PageRequest 55 2 ''created'' ''desc'']\<rparr>)"
proof (rule conjI)
  have 1: "reachesFetch server2 noCache" by (simp add: reachesFetch_def noCache_def)
  have 2: "(\<lambda>n p. 3) (120 :: int) (55 :: int) = (3 :: int)" by simp
  have 3: "snd (GetEntries server2 55 2 ''created'' ''desc'') \<noteq> None"
    by (simp add: server2_def server_def)
  show "\<exists>k err. 1 \<le> k \<and> k \<le> 2 \<and> snd (GetEntries server2 55 k ''created'' ''desc'') = Some err \<and>
      sync (\<lambda>n p. 3) server2 120 55 ''created'' ''desc'' noCache =
        (Msg (wallabagoResponseErrorMsg
           (''Error:'' @ [LF] @ '' couldn't retrieve the entries from wallabag API'')
           (Some err)),
         noCache\<lparr>trace := trace noCache @ looked noCache @
                    map (\<lambda>j. PageRequest 55 j ''created'' ''desc'') [1..k]\<rparr>) \<and>
      cache (snd (sync (\<lambda>n p. 3) server2 120 55 ''created'' ''desc'' noCache)) = cache noCache \<and>
      (\<exists>m'. Update (\<lambda>m e. m) model0
              (wallabagoResponseErrorMsg
                 (''Error:'' @ [LF] @ '' couldn't retrieve the entries from wallabag API'')
                 (Some err)) =
            updateDialogView
              (wallabagoResponseErrorMsg
                 (''Error:'' @ [LF] @ '' couldn't retrieve the entries from wallabag API'')
                 (Some err)) m' \<and>
            model.Entries m' = model.Entries model0)"
    by (rule sync_page_failure [where h = "\<lambda>n p. 3" and calls = 3, OF 1 2 _ _ _ _ 3]) simp_all
next
  show "sync (\<lambda>n p. 3) server2 120 55 ''created'' ''desc'' noCache =
        (Msg (wallabagoResponseErrorMsg
           (''Error:'' @ [LF] @ '' couldn't retrieve the entries from wallabag API'')
           (Some (Error ''timeout''))),
         \<lparr>cache = None,
          trace = [Stat, PageRequest 55 1 ''created'' ''desc'',
                   PageRequest 55 2 ''created'' ''desc'']\<rparr>)"
    by code_simp
qed

text \<open>
  The claim as first stated fails in package main. There the request of page 2 of 3
  fails and the sync goes on: its result is no error message but the entries of pages
  1 and 3, which the list updater takes as the new entries.
\<close>

theorem sync_page_failure_counterexample:
  "snd (GetEntries server2 55 2 ''updated'' ''desc'') = Some (Error ''timeout'')
   \<and> requestWallabagEntries_main server2 120 noCache =
       (Msg (wallabagoResponseEntitiesMsg [pageEntry 1, pageEntry 3]),
        \<lparr>cache = None,
         trace = [PageRequest 55 1 ''updated'' ''desc'', PageRequest 55 2 ''updated'' ''desc'',
                  PageRequest 55 3 ''updated'' ''desc'']\<rparr>)"
  by code_simp


subsection \<open>The cache cannot be written\<close>

text \<open>
  \<^bold>\<open>C4\<close>, as amended. In package tui, if a sync attempt reaches the paginated fetch
  and every page request succeeds but the cache write fails, the result of the attempt
  is the error message of the write and nothing else: the entries fetched are not
  delivered. When the file cannot be opened the cache stays as it is; when the
  encoding fails the file holds what the encoder wrote. \<^verbatim>\<open>Update\<close> hands either
  message to the dialog updater with a model whose entries are those of before.
\<close>

theorem cache_write_failure:
  assumes "reachesFetch E w"
    and "h N P = calls" "- (2 ^ 63) \<le> calls" "calls < 2 ^ 63 - 1"
    and "\<forall>j. 1 \<le> j \<and> j \<le> calls \<longrightarrow> snd (GetEntries E P j sf so) = None"
  shows "(OpenFile_err E = Some err \<longrightarrow>
            sync h E N P sf so w =
              (Msg (wallabagoResponseErrorMsg
                 (''Error:'' @ [LF] @ '' couldn't open file to cache Wallabag entries: '' @
                  cacheFilename @ '': '' @ errorText err) (Some err)),
               w\<lparr>trace := trace w @ looked w @ map (\<lambda>j. PageRequest P j sf so) [1..calls] @
                              [OpenFile, Close]\<rparr>))
       \<and> (OpenFile_err E = None \<and>
          Encode E (concat (map (\<lambda>j. fst (GetEntries E P j sf so)) [1..calls]))
            = (written, Some err) \<longrightarrow>
            sync h E N P sf so w =
              (Msg (wallabagoResponseErrorMsg
                 (''Error:'' @ [LF] @
                  '' couldn't decode cache file to Wallabag entries slice: '' @ errorText err)
                 (Some err)),
               w\<lparr>cache := Some (case cache w of
                                  None \<Rightarrow> \<lparr>mode = 384 AND NOT (umask E), bytes = written\<rparr>
                                | Some f \<Rightarrow> f\<lparr>bytes := written\<rparr>),
                 trace := trace w @ looked w @ map (\<lambda>j. PageRequest P j sf so) [1..calls] @
                          [OpenFile, Write written, Close]\<rparr>))
       \<and> (message \<noteq> [] \<longrightarrow>
            (\<exists>m'. Update U m (wallabagoResponseErrorMsg message e) =
                    updateDialogView (wallabagoResponseErrorMsg message e) m' \<and>
                  model.Entries m' = model.Entries m))"
proof (intro conjI impI)
  assume op: "OpenFile_err E = Some err"
  show "sync h E N P sf so w =
              (Msg (wallabagoResponseErrorMsg
                 (''Error:'' @ [LF] @ '' couldn't open file to cache Wallabag entries: '' @
                  cacheFilename @ '': '' @ errorText err) (Some err)),
               w\<lparr>trace := trace w @ looked w @ map (\<lambda>j. PageRequest P j sf so) [1..calls] @
                              [OpenFile, Close]\<rparr>)"
    unfolding sync_reachesFetch [OF assms(1)]
    by (simp add: func_open_fails [where h=h and N=N and P=P, OF assms(2,3,4,5) op])
next
  assume a: "OpenFile_err E = None \<and>
          Encode E (concat (map (\<lambda>j. fst (GetEntries E P j sf so)) [1..calls]))
            = (written, Some err)"
  then have op: "OpenFile_err E = None"
    and enc: "Encode E (concat (map (\<lambda>j. fst (GetEntries E P j sf so)) [1..calls]))
            = (written, Some err)" by blast+
  show "sync h E N P sf so w =
              (Msg (wallabagoResponseErrorMsg
                 (''Error:'' @ [LF] @
                  '' couldn't decode cache file to Wallabag entries slice: '' @ errorText err)
                 (Some err)),
               w\<lparr>cache := Some (case cache w of
                                  None \<Rightarrow> \<lparr>mode = 384 AND NOT (umask E), bytes = written\<rparr>
                                | Some f \<Rightarrow> f\<lparr>bytes := written\<rparr>),
                 trace := trace w @ looked w @ map (\<lambda>j. PageRequest P j sf so) [1..calls] @
                          [OpenFile, Write written, Close]\<rparr>)"
    unfolding sync_reachesFetch [OF assms(1)]
    by (simp add: func_written [where h=h and N=N and P=P, OF assms(2,3,4,5) op enc])
next
  assume t: "message \<noteq> []"
  define m' where "m' = m\<lparr>model.Reloading := False, Dialog := (Dialog m)\<lparr>Message := message\<rparr>\<rparr>"
  have u: "Update U m (wallabagoResponseErrorMsg message e) =
      updateDialogView (wallabagoResponseErrorMsg message e) m'"
    unfolding m'_def using t by (rule Update_error)
  have en: "model.Entries m' = model.Entries m" by (simp add: m'_def)
  show "\<exists>m'. Update U m (wallabagoResponseErrorMsg message e) =
                    updateDialogView (wallabagoResponseErrorMsg message e) m' \<and>
                  model.Entries m' = model.Entries m"
    by (rule exI [of _ m']) (intro conjI u en)
qed


theorem cache_write_failure_witness:
  "sync (\<lambda>n p. 3) serverRO 120 55 ''created'' ''desc'' noCache =
     (Msg (wallabagoResponseErrorMsg
        (''Error:'' @ [LF] @ '' couldn't open file to cache Wallabag entries: '' @
         ''/tmp/walgot-cache.dat: permission denied'') (Some (Error ''permission denied''))),
      \<lparr>cache = None,
       trace = [Stat, PageRequest 55 1 ''created'' ''desc'', PageRequest 55 2 ''created'' ''desc'',
                PageRequest 55 3 ''created'' ''desc'', OpenFile, Close]\<rparr>)
   \<and> sync (\<lambda>n p. 3) serverEnc 120 55 ''created'' ''desc'' noCache =
     (Msg (wallabagoResponseErrorMsg
        (''Error:'' @ [LF] @ '' couldn't decode cache file to Wallabag entries slice: '' @
         ''short write'') (Some (Error ''short write''))),
      \<lparr>cache = Some \<lparr>mode = 384, bytes = [1, 2]\<rparr>,
       trace = [Stat, PageRequest 55 1 ''created'' ''desc'', PageRequest 55 2 ''created'' ''desc'',
                PageRequest 55 3 ''created'' ''desc'', OpenFile, Write [1, 2], Close]\<rparr>)"
proof -
  have r: "reachesFetch serverRO noCache" "reachesFetch serverEnc noCache"
    by (simp_all add: reachesFetch_def noCache_def)
  have c: "(\<lambda>n p. 3) (120 :: int) (55 :: int) = (3 :: int)" by simp
  have ok: "\<forall>j. 1 \<le> j \<and> j \<le> 3 \<longrightarrow> snd (GetEntries serverRO 55 j ''created'' ''desc'') = None"
    "\<forall>j. 1 \<le> j \<and> j \<le> 3 \<longrightarrow> snd (GetEntries serverEnc 55 j ''created'' ''desc'') = None"
    by (simp_all add: serverRO_def serverEnc_def server_def)
  have up: "[1..3] = [1, 2, 3 :: int]" by (simp add: upto.simps)
  have m: "(384 :: 32 word) AND NOT 18 = 384" by simp
  note A = cache_write_failure [where h = "\<lambda>n p. 3" and calls = 3 and err = "Error ''permission denied''"
      and message = "''x''" and U = "\<lambda>m e. m" and m = model0, OF r(1) c _ _ ok(1)]
  note B = cache_write_failure [where h = "\<lambda>n p. 3" and calls = 3 and err = "Error ''short write''"
      and written = "[1, 2]" and message = "''x''" and U = "\<lambda>m e. m" and m = model0,
      OF r(2) c _ _ ok(2)]
  show ?thesis
    using A B
    by (simp add: serverRO_def serverEnc_def server_def noCache_def looked_def cacheFilename_def
        up m pageEntry_def)
qed

text \<open>
  The claim as first stated fails: the one page of the sync is fetched, the cache file
  cannot be opened, and the result is the error message, not the entry fetched; the
  model that \<^verbatim>\<open>Update\<close> hands on has no entry.
\<close>

theorem cache_write_failure_counterexample:
  "fst (GetEntries serverRO 55 1 ''created'' ''desc'') = [pageEntry 1]
   \<and> fst (sync (\<lambda>n p. 1) serverRO 1 55 ''created'' ''desc'' noCache) =
       Msg (wallabagoResponseErrorMsg
         (''Error:'' @ [LF] @ '' couldn't open file to cache Wallabag entries: '' @
          ''/tmp/walgot-cache.dat: permission denied'') (Some (Error ''permission denied'')))
   \<and> Update (\<lambda>m e. m) model0
        (wallabagoResponseErrorMsg
          (''Error:'' @ [LF] @ '' couldn't open file to cache Wallabag entries: '' @
           ''/tmp/walgot-cache.dat: permission denied'') (Some (Error ''permission denied''))) =
       updateDialogView
        (wallabagoResponseErrorMsg
          (''Error:'' @ [LF] @ '' couldn't open file to cache Wallabag entries: '' @
           ''/tmp/walgot-cache.dat: permission denied'') (Some (Error ''permission denied'')))
        (model0\<lparr>model.Reloading := False,
           Dialog := (Dialog model0)\<lparr>Message :=
             ''Error:'' @ [LF] @ '' couldn't open file to cache Wallabag entries: '' @
             ''/tmp/walgot-cache.dat: permission denied''\<rparr>\<rparr>)
   \<and> model.Entries (model0\<lparr>model.Reloading := False,
           Dialog := (Dialog model0)\<lparr>Message :=
             ''Error:'' @ [LF] @ '' couldn't open file to cache Wallabag entries: '' @
             ''/tmp/walgot-cache.dat: permission denied''\<rparr>\<rparr>) = []"
  by code_simp

subsection \<open>The number of page requests\<close>

lemma pagesRequested_cache [simp]:
  "pagesRequested (w\<lparr>cache := c\<rparr>) = pagesRequested w"
  by (simp add: pagesRequested_def)

lemma pageOf_requests:
  "concat (map (pageOf \<circ> (\<lambda>j. PageRequest P j sf so)) js) = js"
  by (induction js) simp_all

lemma pageOf_looked: "concat (map pageOf (looked w)) = []"
  by (simp add: looked_def split: option.splits)

text \<open>When every request succeeds, the pages requested are \<open>1..calls\<close> whatever
  happens to the cache write.\<close>

lemma sync_pages:
  assumes r: "reachesFetch E w"
    and hc: "h N P = calls" and calls: "- (2 ^ 63) \<le> calls" "calls < 2 ^ 63 - 1"
    and ok: "\<forall>j. 1 \<le> j \<and> j \<le> calls \<longrightarrow> snd (GetEntries E P j sf so) = None"
  shows "pagesRequested (snd (sync h E N P sf so w)) = pagesRequested w @ [1..calls]"
proof (cases "OpenFile_err E")
  case (Some err)
  show ?thesis
    unfolding sync_reachesFetch [OF r]
      func_open_fails [where h=h and N=N and P=P, OF hc calls ok Some]
    by (simp add: pagesRequested_def pageOf_requests pageOf_looked)
next
  case None
  obtain written e
    where enc: "Encode E (concat (map (\<lambda>j. fst (GetEntries E P j sf so)) [1..calls])) = (written, e)"
    by (cases "Encode E (concat (map (\<lambda>j. fst (GetEntries E P j sf so)) [1..calls]))")
  show ?thesis
    unfolding sync_reachesFetch [OF r]
      func_written [where h=h and N=N and P=P, OF hc calls ok None enc]
    by (simp add: pagesRequested_def pageOf_requests pageOf_looked)
qed

lemma sync_delivers:
  assumes r: "reachesFetch E w"
    and hc: "h N P = calls" and calls: "- (2 ^ 63) \<le> calls" "calls < 2 ^ 63 - 1"
    and ok: "\<forall>j. 1 \<le> j \<and> j \<le> calls \<longrightarrow> snd (GetEntries E P j sf so) = None"
    and op: "OpenFile_err E = None"
    and enc: "snd (Encode E (concat (map (\<lambda>j. fst (GetEntries E P j sf so)) [1..calls]))) = None"
  shows "fst (sync h E N P sf so w) =
     Msg (wallabagoResponseEntitiesMsg (concat (map (\<lambda>j. fst (GetEntries E P j sf so)) [1..calls])))"
proof -
  obtain written
    where enc': "Encode E (concat (map (\<lambda>j. fst (GetEntries E P j sf so)) [1..calls]))
       = (written, None)"
    using enc by (cases "Encode E (concat (map (\<lambda>j. fst (GetEntries E P j sf so)) [1..calls]))") simp
  show ?thesis
    unfolding sync_reachesFetch [OF r]
      func_written [where h=h and N=N and P=P, OF hc calls ok op enc']
    by simp
qed

text \<open>\<^verbatim>\<open>main.go\<close>: the requests are the pages \<open>1..calls\<close> and the result is the
  concatenation of what they return.\<close>

lemma main_pages:
  assumes "nbCallsFor nbArticles 55 = Some calls" "- (2 ^ 63) \<le> calls" "calls < 2 ^ 63 - 1"
  shows "fst (requestWallabagEntries_main E nbArticles w) =
           Msg (wallabagoResponseEntitiesMsg
             (concat (map (\<lambda>j. fst (GetEntries E 55 j ''updated'' ''desc'')) [1..calls])))"
    and "pagesRequested (snd (requestWallabagEntries_main E nbArticles w)) =
           pagesRequested w @ [1..calls]"
proof -
  have b: "wrap64 (calls + 1) = calls + 1" using assms(2,3) by (simp add: wrap64_id)
  obtain es w' where run: "requestPages_main E 55 (calls + 1) 1 [] w = (es, w')"
    by (cases "requestPages_main E 55 (calls + 1) 1 [] w")
  from requestPages_main_eq [of E 55 "calls + 1" 1 "[]" w]
  have es: "es = concat (map (\<lambda>j. fst (GetEntries E 55 j ''updated'' ''desc'')) [1..calls])"
    and p: "pagesRequested w' = pagesRequested w @ [1..calls]"
    by (simp_all add: run)
  show "fst (requestWallabagEntries_main E nbArticles w) =
           Msg (wallabagoResponseEntitiesMsg
             (concat (map (\<lambda>j. fst (GetEntries E 55 j ''updated'' ''desc'')) [1..calls])))"
    by (simp add: requestWallabagEntries_main_def assms(1) b run es)
  show "pagesRequested (snd (requestWallabagEntries_main E nbArticles w)) =
           pagesRequested w @ [1..calls]"
    by (simp add: requestWallabagEntries_main_def assms(1) b run p)
qed

lemma ceiling_range:
  fixes N P :: int
  assumes "0 < P" "0 < N"
  shows "1 \<le> \<lceil>(of_int N :: rat) / of_int P\<rceil>" "\<lceil>(of_int N :: rat) / of_int P\<rceil> \<le> N"
proof -
  have "(0::rat) < of_int N / of_int P" using assms by simp
  then have "0 < \<lceil>(of_int N :: rat) / of_int P\<rceil>" by (simp add: ceiling_less_iff del: of_int_0_less_iff)
  then show "1 \<le> \<lceil>(of_int N :: rat) / of_int P\<rceil>" by simp
  have "(of_int N :: rat) / of_int P \<le> of_int N / 1"
    using assms by (intro divide_left_mono) simp_all
  then have "(of_int N :: rat) / of_int P \<le> of_int N" by simp
  then show "\<lceil>(of_int N :: rat) / of_int P\<rceil> \<le> N" by (simp add: ceiling_le_iff)
qed


text \<open>
  \<^bold>\<open>C3\<close>, as amended. For every page size \<open>P > 0\<close> and every total count \<open>N\<close>
  with \<open>1 \<le> N < 2 ^ 53\<close>, the number of calls that \<^verbatim>\<open>main.go\<close> computes is
  \<open>\<lceil>N / P\<rceil>\<close>: 3 for \<open>N = 120\<close>, \<open>P = 55\<close>, and 1 for \<open>N = 55\<close>, \<open>P = 55\<close>. For
  \<open>N = 0\<close> it is 1. The synchronizer of \<^verbatim>\<open>main.go\<close>, whose page size is 55, requests
  the pages \<open>1..\<lceil>N / 55\<rceil>\<close> in this order and returns the concatenation of their
  results in this order. The synchronizer of package tui, when it reaches the fetch and
  every request succeeds, requests the pages \<open>1..calls\<close> in this order for the number
  \<open>calls\<close> that its helper returns, and, when the cache write succeeds too, returns the
  concatenation of their results in this order.
\<close>

theorem page_requests:
  assumes "0 < P" "1 \<le> N" "N < 2 ^ 53"
  shows "nbCallsFor N P = Some \<lceil>(of_int N :: rat) / of_int P\<rceil>
       \<and> nbCallsFor 120 55 = Some 3 \<and> nbCallsFor 55 55 = Some 1 \<and> nbCallsFor 0 P = Some 1
       \<and> fst (requestWallabagEntries_main E N w) =
           Msg (wallabagoResponseEntitiesMsg
             (concat (map (\<lambda>j. fst (GetEntries E 55 j ''updated'' ''desc''))
                [1..\<lceil>(of_int N :: rat) / 55\<rceil>])))
       \<and> pagesRequested (snd (requestWallabagEntries_main E N w)) =
           pagesRequested w @ [1..\<lceil>(of_int N :: rat) / 55\<rceil>]
       \<and> (reachesFetch E w \<and> h N P = calls \<and> - (2 ^ 63) \<le> calls \<and> calls < 2 ^ 63 - 1 \<and>
          (\<forall>j. 1 \<le> j \<and> j \<le> calls \<longrightarrow> snd (GetEntries E P j sf so) = None) \<longrightarrow>
            pagesRequested (snd (sync h E N P sf so w)) = pagesRequested w @ [1..calls] \<and>
            (OpenFile_err E = None \<and>
             snd (Encode E (concat (map (\<lambda>j. fst (GetEntries E P j sf so)) [1..calls]))) = None \<longrightarrow>
               fst (sync h E N P sf so w) =
                 Msg (wallabagoResponseEntitiesMsg
                   (concat (map (\<lambda>j. fst (GetEntries E P j sf so)) [1..calls])))))"
proof -
  have N0: "\<not> N \<le> 0" using assms(2) by simp
  have c: "nbCallsFor N P = Some \<lceil>(of_int N :: rat) / of_int P\<rceil>"
    using nbCallsFor_eq [OF assms(1,3)] N0 by simp
  have e1: "nbCallsFor 120 55 = Some 3" "nbCallsFor 55 55 = Some 1"
    by code_simp+
  have e0: "nbCallsFor 0 P = Some 1" using nbCallsFor_eq [OF assms(1), of 0] by simp
  have c55: "nbCallsFor N 55 = Some \<lceil>(of_int N :: rat) / 55\<rceil>"
    using nbCallsFor_eq [of 55 N] assms(3) N0 by simp
  have r55: "1 \<le> \<lceil>(of_int N :: rat) / 55\<rceil>" "\<lceil>(of_int N :: rat) / 55\<rceil> \<le> N"
    using ceiling_range [of 55 N] assms(2) by simp_all
  then have b55: "- (2 ^ 63) \<le> \<lceil>(of_int N :: rat) / 55\<rceil>"
    "\<lceil>(of_int N :: rat) / 55\<rceil> < 2 ^ 63 - 1"
    using assms(3) by simp_all
  note m = main_pages [OF c55 b55, of E w]
  have t: "reachesFetch E w \<and> h N P = calls \<and> - (2 ^ 63) \<le> calls \<and> calls < 2 ^ 63 - 1 \<and>
          (\<forall>j. 1 \<le> j \<and> j \<le> calls \<longrightarrow> snd (GetEntries E P j sf so) = None) \<longrightarrow>
            pagesRequested (snd (sync h E N P sf so w)) = pagesRequested w @ [1..calls] \<and>
            (OpenFile_err E = None \<and>
             snd (Encode E (concat (map (\<lambda>j. fst (GetEntries E P j sf so)) [1..calls]))) = None \<longrightarrow>
               fst (sync h E N P sf so w) =
                 Msg (wallabagoResponseEntitiesMsg
                   (concat (map (\<lambda>j. fst (GetEntries E P j sf so)) [1..calls]))))"
  proof (intro impI conjI)
    assume a: "reachesFetch E w \<and> h N P = calls \<and> - (2 ^ 63) \<le> calls \<and> calls < 2 ^ 63 - 1 \<and>
          (\<forall>j. 1 \<le> j \<and> j \<le> calls \<longrightarrow> snd (GetEntries E P j sf so) = None)"
    then have r: "reachesFetch E w" and hc: "h N P = calls"
      and cr: "- (2 ^ 63) \<le> calls" "calls < 2 ^ 63 - 1"
      and ok: "\<forall>j. 1 \<le> j \<and> j \<le> calls \<longrightarrow> snd (GetEntries E P j sf so) = None"
      by blast+
    show "pagesRequested (snd (sync h E N P sf so w)) = pagesRequested w @ [1..calls]"
      using r hc cr ok by (rule sync_pages)
    assume w: "OpenFile_err E = None \<and>
             snd (Encode E (concat (map (\<lambda>j. fst (GetEntries E P j sf so)) [1..calls]))) = None"
    then have op: "OpenFile_err E = None"
      and enc: "snd (Encode E (concat (map (\<lambda>j. fst (GetEntries E P j sf so)) [1..calls]))) = None"
      by blast+
    show "fst (sync h E N P sf so w) =
                 Msg (wallabagoResponseEntitiesMsg
                   (concat (map (\<lambda>j. fst (GetEntries E P j sf so)) [1..calls])))"
      using r hc cr ok op enc by (rule sync_delivers)
  qed
  show ?thesis by (intro conjI c e1 e0 m t)
qed

theorem page_requests_witness:
  "nbCallsFor 120 55 = Some 3
   \<and> fst (requestWallabagEntries_main server 120 noCache) =
       Msg (wallabagoResponseEntitiesMsg [pageEntry 1, pageEntry 2, pageEntry 3])
   \<and> pagesRequested (snd (requestWallabagEntries_main server 120 noCache)) = [1, 2, 3]
   \<and> pagesRequested (snd (sync (\<lambda>n p. 3) server 120 55 ''created'' ''desc'' noCache)) = [1, 2, 3]
   \<and> fst (sync (\<lambda>n p. 3) server 120 55 ''created'' ''desc'' noCache) =
       Msg (wallabagoResponseEntitiesMsg [pageEntry 1, pageEntry 2, pageEntry 3])"
proof -
  have c: "\<lceil>(24 :: rat) / 11\<rceil> = 3" by code_simp
  have up: "[1..3] = [1, 2, 3 :: int]" by (simp add: upto.simps)
  have r: "reachesFetch server noCache" by (simp add: reachesFetch_def noCache_def)
  have p0: "pagesRequested noCache = []" by (simp add: pagesRequested_def noCache_def)
  have g: "\<And>j so sf. fst (GetEntries server 55 j sf so) = [pageEntry j]" by (simp add: server_def)
  have w: "OpenFile_err server = None" "\<And>es. snd (Encode server es) = None"
    by (simp_all add: server_def)
  show ?thesis
    using page_requests [of 55 120 server noCache "\<lambda>n p. 3" 3 "''created''" "''desc''"]
    by (simp add: c up r p0 g w)
qed

text \<open>
  The claim as first stated fails at \<open>N = 0\<close>: the quotient's ceiling is 0, the number
  of calls is 1, and page 1 is requested.
\<close>

theorem page_requests_counterexample:
  "\<lceil>(of_int 0 :: rat) / of_int 55\<rceil> = 0
   \<and> nbCallsFor 0 55 = Some 1
   \<and> pagesRequested (snd (requestWallabagEntries_main server 0 noCache)) = [1]"
  by code_simp

text \<open>
  Beyond \<open>2 ^ 53\<close> the comparison in \<^verbatim>\<open>float64\<close> can miss a remainder: for
  \<open>N = 55 * 2 ^ 52 + 1\<close> the number of calls is \<open>2 ^ 52\<close>, one less than the ceiling.
\<close>

lemma nbCallsFor_large:
  "nbCallsFor (55 * 2 ^ 52 + 1) 55 = Some (2 ^ 52)
   \<and> \<lceil>(of_int (55 * 2 ^ 52 + 1) :: rat) / of_int 55\<rceil> = 2 ^ 52 + 1"
  by code_simp

subsection \<open>Errors do not end the process in package tui\<close>

lemma Update_quits:
  assumes "Update U m msg = Return m' Quit"
  shows "msg = KeyMsg ''ctrl+c''"
  using assms
  by (auto simp: Update_def split: if_splits msg.splits sum.splits bool.splits)

lemma sync_page_failure_msg:
  assumes r: "reachesFetch E w"
    and hc: "h N P = calls" and calls: "- (2 ^ 63) \<le> calls" "calls < 2 ^ 63 - 1"
    and k0: "1 \<le> k0" "k0 \<le> calls" "snd (GetEntries E P k0 sf so) \<noteq> None"
  shows "\<exists>err. fst (sync h E N P sf so w) =
           Msg (wallabagoResponseErrorMsg
             (''Error:'' @ [LF] @ '' couldn't retrieve the entries from wallabag API'')
             (Some err))"
proof -
  obtain k where k: "1 \<le> k" "k \<le> k0" "snd (GetEntries E P k sf so) \<noteq> None"
    and first: "\<forall>j. 1 \<le> j \<and> j < k \<longrightarrow> \<not> snd (GetEntries E P j sf so) \<noteq> None"
    using first_failing_page [of k0 "\<lambda>j. snd (GetEntries E P j sf so) \<noteq> None"] k0(1,3)
    by blast
  from k(3) obtain err where err: "snd (GetEntries E P k sf so) = Some err" by blast
  have first': "\<forall>j. 1 \<le> j \<and> j < k \<longrightarrow> snd (GetEntries E P j sf so) = None"
    using first by simp
  have kc: "k \<le> calls" using k(2) k0(2) by simp
  have "fst (sync h E N P sf so w) =
           Msg (wallabagoResponseErrorMsg
             (''Error:'' @ [LF] @ '' couldn't retrieve the entries from wallabag API'')
             (Some err))"
    unfolding sync_reachesFetch [OF r]
    by (simp add: func_page_failure [where h=h and N=N and P=P, OF hc calls k(1) kc err first'])
  then show ?thesis by (rule exI)
qed

lemma sync_open_failure_msg:
  assumes r: "reachesFetch E w"
    and hc: "h N P = calls" and calls: "- (2 ^ 63) \<le> calls" "calls < 2 ^ 63 - 1"
    and ok: "\<forall>j. 1 \<le> j \<and> j \<le> calls \<longrightarrow> snd (GetEntries E P j sf so) = None"
    and op: "OpenFile_err E = Some err"
  shows "fst (sync h E N P sf so w) =
           Msg (wallabagoResponseErrorMsg
             (''Error:'' @ [LF] @ '' couldn't open file to cache Wallabag entries: '' @
              cacheFilename @ '': '' @ errorText err) (Some err))"
  unfolding sync_reachesFetch [OF r]
  by (simp add: func_open_fails [where h=h and N=N and P=P, OF hc calls ok op])

lemma sync_encode_failure_msg:
  assumes r: "reachesFetch E w"
    and hc: "h N P = calls" and calls: "- (2 ^ 63) \<le> calls" "calls < 2 ^ 63 - 1"
    and ok: "\<forall>j. 1 \<le> j \<and> j \<le> calls \<longrightarrow> snd (GetEntries E P j sf so) = None"
    and op: "OpenFile_err E = None"
    and enc: "Encode E (concat (map (\<lambda>j. fst (GetEntries E P j sf so)) [1..calls]))
                = (written, Some err)"
  shows "fst (sync h E N P sf so w) =
           Msg (wallabagoResponseErrorMsg
             (''Error:'' @ [LF] @ '' couldn't decode cache file to Wallabag entries slice: '' @
              errorText err) (Some err))"
  unfolding sync_reachesFetch [OF r]
  by (simp add: func_written [where h=h and N=N and P=P, OF hc calls ok op enc])

lemma func_kinds:
  "(\<exists>es. fst (requestWallabagEntries_func h E N P sf so entries w) =
            Msg (wallabagoResponseEntitiesMsg es))
   \<or> (\<exists>message e. fst (requestWallabagEntries_func h E N P sf so entries w) =
            Msg (wallabagoResponseErrorMsg message e))"
  by (auto simp: requestWallabagEntries_func_def Let_def
      split: prod.splits sum.splits option.splits)

lemma sync_kinds:
  "(\<exists>es. fst (sync h E N P sf so w) = Msg (wallabagoResponseEntitiesMsg es))
   \<or> (\<exists>message e. fst (sync h E N P sf so w) = Msg (wallabagoResponseErrorMsg message e))"
proof -
  have f: "\<And>entries w'.
      (\<exists>es. fst (requestWallabagEntries_func h E N P sf so entries w') =
            Msg (wallabagoResponseEntitiesMsg es))
      \<or> (\<exists>message e. fst (requestWallabagEntries_func h E N P sf so entries w') =
            Msg (wallabagoResponseErrorMsg message e))"
    by (rule func_kinds)
  show ?thesis
    unfolding sync_def requestWallabagEntries_def Let_def
    by (auto split: option.splits prod.splits simp: f)
qed

lemma callbacks_return:
  "(\<exists>msg. fst (requestWallabagNbEntries E w) = Msg msg)
   \<and> (\<exists>msg. fst (requestWallabagEntryUpdate E entryID archive starred public w) = Msg msg)
   \<and> (\<exists>msg. fst (requestWallabagAddEntry E url w) = Msg msg)
   \<and> (\<exists>msg. fst (requestWallabagEntryDelete E entryID w) = Msg msg)
   \<and> (\<exists>msg. fst (selectEntryCommand entryID w) = Msg msg)"
  by (auto simp: requestWallabagNbEntries_def requestWallabagEntryUpdate_def
      requestWallabagAddEntry_def requestWallabagEntryDelete_def selectEntryCommand_def Let_def
      split: prod.splits option.splits)

text \<open>
  \<^bold>\<open>C5\<close>, as amended. In package tui no request callback ends the process: each
  returns a message, and when a step of it fails, the error message of that step.
  \<^verbatim>\<open>requestWallabagNbEntries\<close> does so when the count request fails;
  \<^verbatim>\<open>requestWallabagEntryUpdate\<close> when the update request fails or its answer does
  not parse; \<^verbatim>\<open>requestWallabagAddEntry\<close> when the URL is not valid or the add request
  fails; \<^verbatim>\<open>requestWallabagEntryDelete\<close> when the delete request fails; the sync when
  the cache content does not decode and, once it has reached the paginated fetch, when
  a page request fails, when the cache file cannot be opened, or when the encoding
  fails (the number of calls below the largest \<^verbatim>\<open>int\<close>); and the sync returns nothing
  but the entries message or an error message. For every error message with a text,
  \<^verbatim>\<open>Update\<close> makes the text the dialog message, ends the reloading and calls the dialog
  updater. Of its own, \<^verbatim>\<open>Update\<close> returns \<^verbatim>\<open>tea.Quit\<close> only for the key ctrl+c.
\<close>

theorem count_failure:
  "(GetNbTotalEntries E = (n, Some e) \<longrightarrow>
      requestWallabagNbEntries E w =
        (Msg (wallabagoResponseErrorMsg
           (''Error:'' @ [LF] @
            '' couldn't retrieve the total number of entries from wallabag API'') (Some e)),
         emit NbRequest w))
   \<and> (UpdateEntry E entryID archive starred public = (r, Some e) \<longrightarrow>
      requestWallabagEntryUpdate E entryID archive starred public w =
        (Msg (wallabagoResponseErrorMsg
           (''Error:'' @ [LF] @ '' Couldn't update the selected entry'') (Some e)),
         emit (UpdateRequest entryID archive starred public) w))
   \<and> (UpdateEntry E entryID archive starred public = (r, None) \<and>
      Unmarshal E r = (item, Some e) \<longrightarrow>
      requestWallabagEntryUpdate E entryID archive starred public w =
        (Msg (wallabagoResponseErrorMsg
           (''Error:'' @ [LF] @ '' Response from wallabago is not valid'') (Some e)),
         emit (UpdateRequest entryID archive starred public) w))
   \<and> (\<not> isValidURL E url \<longrightarrow>
      requestWallabagAddEntry E url w =
        (Msg (wallabagoResponseErrorMsg (''Error:'' @ [LF] @ '' Invalid URL'')
           (Some (Error ''invalid URL given''))), w))
   \<and> (isValidURL E url \<and> AddEntry E url = (added, Some e) \<longrightarrow>
      requestWallabagAddEntry E url w =
        (Msg (wallabagoResponseErrorMsg
           (''Error:'' @ [LF] @ '' Couldn't add the entry'') (Some e)),
         emit (AddRequest url) w))
   \<and> (DeleteEntry E entryID = Some e \<longrightarrow>
      requestWallabagEntryDelete E entryID w =
        (Msg (wallabagoResponseErrorMsg
           (''Error:'' @ [LF] @ '' Couldn't add the entry'') (Some e)),
         emit (DeleteRequest entryID) w))
   \<and> (cache w = Some info \<and> push_bit 2 (mode info AND 1) = 0 \<and> ReadFile_err E = None \<and>
      Decode E (bytes info) = (decoded, Some e) \<longrightarrow>
      fst (sync h E N P sf so w) =
        Msg (wallabagoResponseErrorMsg
          (''Error:'' @ [LF] @ '' couldn't load the entries from cache'') (Some e)))
   \<and> (reachesFetch E w \<and> - (2 ^ 63) \<le> h N P \<and> h N P < 2 ^ 63 - 1 \<and>
      1 \<le> k \<and> k \<le> h N P \<and> snd (GetEntries E P k sf so) \<noteq> None \<longrightarrow>
      (\<exists>err. fst (sync h E N P sf so w) =
         Msg (wallabagoResponseErrorMsg
           (''Error:'' @ [LF] @ '' couldn't retrieve the entries from wallabag API'')
           (Some err))))
   \<and> (reachesFetch E w \<and> - (2 ^ 63) \<le> h N P \<and> h N P < 2 ^ 63 - 1 \<and>
      (\<forall>j. 1 \<le> j \<and> j \<le> h N P \<longrightarrow> snd (GetEntries E P j sf so) = None) \<and>
      OpenFile_err E = Some e \<longrightarrow>
      fst (sync h E N P sf so w) =
        Msg (wallabagoResponseErrorMsg
          (''Error:'' @ [LF] @ '' couldn't open file to cache Wallabag entries: '' @
           cacheFilename @ '': '' @ errorText e) (Some e)))
   \<and> (reachesFetch E w \<and> - (2 ^ 63) \<le> h N P \<and> h N P < 2 ^ 63 - 1 \<and>
      (\<forall>j. 1 \<le> j \<and> j \<le> h N P \<longrightarrow> snd (GetEntries E P j sf so) = None) \<and>
      OpenFile_err E = None \<and>
      Encode E (concat (map (\<lambda>j. fst (GetEntries E P j sf so)) [1..h N P]))
        = (written, Some e) \<longrightarrow>
      fst (sync h E N P sf so w) =
        Msg (wallabagoResponseErrorMsg
          (''Error:'' @ [LF] @ '' couldn't decode cache file to Wallabag entries slice: '' @
           errorText e) (Some e)))
   \<and> ((\<exists>es. fst (sync h E N P sf so w) = Msg (wallabagoResponseEntitiesMsg es))
      \<or> (\<exists>message err. fst (sync h E N P sf so w) =
            Msg (wallabagoResponseErrorMsg message err)))
   \<and> (\<exists>msg. fst (requestWallabagNbEntries E w) = Msg msg)
   \<and> (\<exists>msg. fst (requestWallabagEntryUpdate E entryID archive starred public w) = Msg msg)
   \<and> (\<exists>msg. fst (requestWallabagAddEntry E url w) = Msg msg)
   \<and> (\<exists>msg. fst (requestWallabagEntryDelete E entryID w) = Msg msg)
   \<and> (\<exists>msg. fst (selectEntryCommand entryID w) = Msg msg)
   \<and> (message \<noteq> [] \<longrightarrow>
      Update U m (wallabagoResponseErrorMsg message cause) =
        updateDialogView (wallabagoResponseErrorMsg message cause)
          (m\<lparr>model.Reloading := False, Dialog := (Dialog m)\<lparr>Message := message\<rparr>\<rparr>))
   \<and> (\<forall>m'. Update U m msg = Return m' Quit \<longrightarrow> msg = KeyMsg ''ctrl+c'')"
proof (intro conjI impI allI)
  assume "GetNbTotalEntries E = (n, Some e)"
  then show "requestWallabagNbEntries E w =
        (Msg (wallabagoResponseErrorMsg
           (''Error:'' @ [LF] @
            '' couldn't retrieve the total number of entries from wallabag API'') (Some e)),
         emit NbRequest w)"
    by (simp add: requestWallabagNbEntries_def)
next
  assume "UpdateEntry E entryID archive starred public = (r, Some e)"
  then show "requestWallabagEntryUpdate E entryID archive starred public w =
        (Msg (wallabagoResponseErrorMsg
           (''Error:'' @ [LF] @ '' Couldn't update the selected entry'') (Some e)),
         emit (UpdateRequest entryID archive starred public) w)"
    by (simp add: requestWallabagEntryUpdate_def)
next
  assume "UpdateEntry E entryID archive starred public = (r, None) \<and>
      Unmarshal E r = (item, Some e)"
  then show "requestWallabagEntryUpdate E entryID archive starred public w =
        (Msg (wallabagoResponseErrorMsg
           (''Error:'' @ [LF] @ '' Response from wallabago is not valid'') (Some e)),
         emit (UpdateRequest entryID archive starred public) w)"
    by (simp add: requestWallabagEntryUpdate_def)
next
  assume "\<not> isValidURL E url"
  then show "requestWallabagAddEntry E url w =
        (Msg (wallabagoResponseErrorMsg (''Error:'' @ [LF] @ '' Invalid URL'')
           (Some (Error ''invalid URL given''))), w)"
    by (simp add: requestWallabagAddEntry_def)
next
  assume "isValidURL E url \<and> AddEntry E url = (added, Some e)"
  then show "requestWallabagAddEntry E url w =
        (Msg (wallabagoResponseErrorMsg
           (''Error:'' @ [LF] @ '' Couldn't add the entry'') (Some e)),
         emit (AddRequest url) w)"
    by (simp add: requestWallabagAddEntry_def)
next
  assume "DeleteEntry E entryID = Some e"
  then show "requestWallabagEntryDelete E entryID w =
        (Msg (wallabagoResponseErrorMsg
           (''Error:'' @ [LF] @ '' Couldn't add the entry'') (Some e)),
         emit (DeleteRequest entryID) w)"
    by (simp add: requestWallabagEntryDelete_def)
next
  assume a: "cache w = Some info \<and> push_bit 2 (mode info AND 1) = 0 \<and> ReadFile_err E = None \<and>
      Decode E (bytes info) = (decoded, Some e)"
  then have 1: "cache w = Some info" and 2: "push_bit 2 (mode info AND 1) = 0"
    and 3: "ReadFile_err E = None" and 4: "Decode E (bytes info) = (decoded, Some e)"
    by blast+
  show "fst (sync h E N P sf so w) =
        Msg (wallabagoResponseErrorMsg
          (''Error:'' @ [LF] @ '' couldn't load the entries from cache'') (Some e))"
    by (simp add: sync_undecodable [OF 1 2 3 4])
next
  assume a: "reachesFetch E w \<and> - (2 ^ 63) \<le> h N P \<and> h N P < 2 ^ 63 - 1 \<and>
      1 \<le> k \<and> k \<le> h N P \<and> snd (GetEntries E P k sf so) \<noteq> None"
  then have 1: "reachesFetch E w" and 2: "- (2 ^ 63) \<le> h N P" and 3: "h N P < 2 ^ 63 - 1"
    and 4: "1 \<le> k" and 5: "k \<le> h N P" and 6: "snd (GetEntries E P k sf so) \<noteq> None"
    by blast+
  show "\<exists>err. fst (sync h E N P sf so w) =
         Msg (wallabagoResponseErrorMsg
           (''Error:'' @ [LF] @ '' couldn't retrieve the entries from wallabag API'')
           (Some err))"
    by (rule sync_page_failure_msg [where h=h and N=N and P=P, OF 1 refl 2 3 4 5 6])
next
  assume a: "reachesFetch E w \<and> - (2 ^ 63) \<le> h N P \<and> h N P < 2 ^ 63 - 1 \<and>
      (\<forall>j. 1 \<le> j \<and> j \<le> h N P \<longrightarrow> snd (GetEntries E P j sf so) = None) \<and>
      OpenFile_err E = Some e"
  then have 1: "reachesFetch E w" and 2: "- (2 ^ 63) \<le> h N P" and 3: "h N P < 2 ^ 63 - 1"
    and 4: "\<forall>j. 1 \<le> j \<and> j \<le> h N P \<longrightarrow> snd (GetEntries E P j sf so) = None"
    and 5: "OpenFile_err E = Some e"
    by blast+
  show "fst (sync h E N P sf so w) =
        Msg (wallabagoResponseErrorMsg
          (''Error:'' @ [LF] @ '' couldn't open file to cache Wallabag entries: '' @
           cacheFilename @ '': '' @ errorText e) (Some e))"
    by (rule sync_open_failure_msg [where h=h and N=N and P=P, OF 1 refl 2 3 4 5])
next
  assume a: "reachesFetch E w \<and> - (2 ^ 63) \<le> h N P \<and> h N P < 2 ^ 63 - 1 \<and>
      (\<forall>j. 1 \<le> j \<and> j \<le> h N P \<longrightarrow> snd (GetEntries E P j sf so) = None) \<and>
      OpenFile_err E = None \<and>
      Encode E (concat (map (\<lambda>j. fst (GetEntries E P j sf so)) [1..h N P]))
        = (written, Some e)"
  then have 1: "reachesFetch E w" and 2: "- (2 ^ 63) \<le> h N P" and 3: "h N P < 2 ^ 63 - 1"
    and 4: "\<forall>j. 1 \<le> j \<and> j \<le> h N P \<longrightarrow> snd (GetEntries E P j sf so) = None"
    and 5: "OpenFile_err E = None"
    and 6: "Encode E (concat (map (\<lambda>j. fst (GetEntries E P j sf so)) [1..h N P]))
        = (written, Some e)"
    by blast+
  show "fst (sync h E N P sf so w) =
        Msg (wallabagoResponseErrorMsg
          (''Error:'' @ [LF] @ '' couldn't decode cache file to Wallabag entries slice: '' @
           errorText e) (Some e))"
    by (rule sync_encode_failure_msg [where h=h and N=N and P=P, OF 1 refl 2 3 4 5 6])
next
  show "(\<exists>es. fst (sync h E N P sf so w) = Msg (wallabagoResponseEntitiesMsg es))
      \<or> (\<exists>message err. fst (sync h E N P sf so w) =
            Msg (wallabagoResponseErrorMsg message err))"
    by (rule sync_kinds)
next
  show "\<exists>msg. fst (requestWallabagNbEntries E w) = Msg msg"
    using callbacks_return [of E w] by blast
next
  show "\<exists>msg. fst (requestWallabagEntryUpdate E entryID archive starred public w) = Msg msg"
    using callbacks_return [of E w entryID archive starred public] by blast
next
  show "\<exists>msg. fst (requestWallabagAddEntry E url w) = Msg msg"
    using callbacks_return [of E w _ _ _ _ url] by blast
next
  show "\<exists>msg. fst (requestWallabagEntryDelete E entryID w) = Msg msg"
    using callbacks_return [of E w entryID] by blast
next
  show "\<exists>msg. fst (selectEntryCommand entryID w) = Msg msg"
    by (simp add: selectEntryCommand_def)
next
  assume "message \<noteq> []"
  then show "Update U m (wallabagoResponseErrorMsg message cause) =
        updateDialogView (wallabagoResponseErrorMsg message cause)
          (m\<lparr>model.Reloading := False, Dialog := (Dialog m)\<lparr>Message := message\<rparr>\<rparr>)"
    by (rule Update_error)
next
  fix m' assume "Update U m msg = Return m' Quit"
  then show "msg = KeyMsg ''ctrl+c''" by (rule Update_quits)
qed

theorem count_failure_witness:
  "requestWallabagNbEntries serverDown noCache =
     (Msg (wallabagoResponseErrorMsg
        (''Error:'' @ [LF] @
         '' couldn't retrieve the total number of entries from wallabag API'')
        (Some (Error ''timeout''))),
      \<lparr>cache = None, trace = [NbRequest]\<rparr>)
   \<and> requestWallabagEntryUpdate serverOff 7 1 0 0 noCache =
     (Msg (wallabagoResponseErrorMsg
        (''Error:'' @ [LF] @ '' Couldn't update the selected entry'')
        (Some (Error ''timeout''))),
      \<lparr>cache = None, trace = [UpdateRequest 7 1 0 0]\<rparr>)
   \<and> requestWallabagEntryUpdate serverBad 7 1 0 0 noCache =
     (Msg (wallabagoResponseErrorMsg
        (''Error:'' @ [LF] @ '' Response from wallabago is not valid'')
        (Some (Error ''unexpected end of JSON input''))),
      \<lparr>cache = None, trace = [UpdateRequest 7 1 0 0]\<rparr>)
   \<and> requestWallabagAddEntry serverBad ''nowhere'' noCache =
     (Msg (wallabagoResponseErrorMsg (''Error:'' @ [LF] @ '' Invalid URL'')
        (Some (Error ''invalid URL given''))),
      \<lparr>cache = None, trace = []\<rparr>)
   \<and> requestWallabagAddEntry serverOff ''https://a.org'' noCache =
     (Msg (wallabagoResponseErrorMsg (''Error:'' @ [LF] @ '' Couldn't add the entry'')
        (Some (Error ''timeout''))),
      \<lparr>cache = None, trace = [AddRequest ''https://a.org'']\<rparr>)
   \<and> requestWallabagEntryDelete serverOff 7 noCache =
     (Msg (wallabagoResponseErrorMsg (''Error:'' @ [LF] @ '' Couldn't add the entry'')
        (Some (Error ''timeout''))),
      \<lparr>cache = None, trace = [DeleteRequest 7]\<rparr>)
   \<and> fst (sync (\<lambda>n p. 3) server 120 55 ''created'' ''desc'' (cached 384 [])) =
     Msg (wallabagoResponseErrorMsg
       (''Error:'' @ [LF] @ '' couldn't load the entries from cache'') (Some (Error ''EOF'')))
   \<and> (\<exists>err. fst (sync (\<lambda>n p. 3) server2 120 55 ''created'' ''desc'' noCache) =
     Msg (wallabagoResponseErrorMsg
       (''Error:'' @ [LF] @ '' couldn't retrieve the entries from wallabag API'') (Some err)))
   \<and> fst (sync (\<lambda>n p. 3) serverRO 120 55 ''created'' ''desc'' noCache) =
     Msg (wallabagoResponseErrorMsg
       (''Error:'' @ [LF] @ '' couldn't open file to cache Wallabag entries: '' @
        ''/tmp/walgot-cache.dat: permission denied'') (Some (Error ''permission denied'')))
   \<and> fst (sync (\<lambda>n p. 3) serverEnc 120 55 ''created'' ''desc'' noCache) =
     Msg (wallabagoResponseErrorMsg
       (''Error:'' @ [LF] @ '' couldn't decode cache file to Wallabag entries slice: '' @
        ''short write'') (Some (Error ''short write'')))
   \<and> Update (\<lambda>m e. m) model0
        (wallabagoResponseErrorMsg
           (''Error:'' @ [LF] @
            '' couldn't retrieve the total number of entries from wallabag API'')
           (Some (Error ''timeout''))) =
        updateDialogView
          (wallabagoResponseErrorMsg
             (''Error:'' @ [LF] @
              '' couldn't retrieve the total number of entries from wallabag API'')
             (Some (Error ''timeout'')))
          (model0\<lparr>model.Reloading := False,
             Dialog := (Dialog model0)\<lparr>Message :=
               ''Error:'' @ [LF] @
               '' couldn't retrieve the total number of entries from wallabag API''\<rparr>\<rparr>)"
proof -
  note down = count_failure [where E = serverDown and n = 0 and e = "Error ''timeout''"
      and w = noCache and U = "\<lambda>m e. m" and m = model0
      and message = "''Error:'' @ [LF] @
            '' couldn't retrieve the total number of entries from wallabag API''"
      and cause = "Some (Error ''timeout'')"]
  note off = count_failure [where E = serverOff and e = "Error ''timeout''" and w = noCache
      and entryID = 7 and archive = 1 and starred = 0 and public = 0 and r = "[]"
      and url = "''https://a.org''" and added = entry1]
  note bad = count_failure [where E = serverBad
      and e = "Error ''unexpected end of JSON input''" and w = noCache
      and entryID = 7 and archive = 1 and starred = 0 and public = 0 and r = "[]"
      and item = entry1 and url = "''nowhere''"]
  note undecodable = count_failure [where E = server and e = "Error ''EOF''"
      and w = "cached 384 []" and info = "\<lparr>mode = 384, bytes = []\<rparr>" and decoded = "[]"
      and h = "\<lambda>n p. 3" and N = 120 and P = 55 and sf = "''created''" and so = "''desc''"]
  note page = count_failure [where E = server2 and w = noCache and k = 2
      and h = "\<lambda>n p. 3" and N = 120 and P = 55 and sf = "''created''" and so = "''desc''"]
  note ro = count_failure [where E = serverRO and e = "Error ''permission denied''"
      and w = noCache
      and h = "\<lambda>n p. 3" and N = 120 and P = 55 and sf = "''created''" and so = "''desc''"]
  note enc = count_failure [where E = serverEnc and e = "Error ''short write''"
      and w = noCache and written = "[1, 2]"
      and h = "\<lambda>n p. 3" and N = 120 and P = 55 and sf = "''created''" and so = "''desc''"]
  have r: "reachesFetch server2 noCache" "reachesFetch serverRO noCache"
    "reachesFetch serverEnc noCache"
    by (simp_all add: reachesFetch_def noCache_def)
  have 1: "requestWallabagNbEntries serverDown noCache =
     (Msg (wallabagoResponseErrorMsg
        (''Error:'' @ [LF] @
         '' couldn't retrieve the total number of entries from wallabag API'')
        (Some (Error ''timeout''))),
      \<lparr>cache = None, trace = [NbRequest]\<rparr>)"
    using down [THEN conjunct1] by (simp add: serverDown_def server_def noCache_def emit_def)
  have 2: "requestWallabagEntryUpdate serverOff 7 1 0 0 noCache =
     (Msg (wallabagoResponseErrorMsg
        (''Error:'' @ [LF] @ '' Couldn't update the selected entry'')
        (Some (Error ''timeout''))),
      \<lparr>cache = None, trace = [UpdateRequest 7 1 0 0]\<rparr>)"
    using off [THEN conjunct2, THEN conjunct1] by (simp add: serverOff_def server_def noCache_def emit_def)
  have 3: "requestWallabagEntryUpdate serverBad 7 1 0 0 noCache =
     (Msg (wallabagoResponseErrorMsg
        (''Error:'' @ [LF] @ '' Response from wallabago is not valid'')
        (Some (Error ''unexpected end of JSON input''))),
      \<lparr>cache = None, trace = [UpdateRequest 7 1 0 0]\<rparr>)"
    using bad [THEN conjunct2, THEN conjunct2, THEN conjunct1] by (simp add: serverBad_def server_def noCache_def emit_def)
  have 4: "requestWallabagAddEntry serverBad ''nowhere'' noCache =
     (Msg (wallabagoResponseErrorMsg (''Error:'' @ [LF] @ '' Invalid URL'')
        (Some (Error ''invalid URL given''))),
      \<lparr>cache = None, trace = []\<rparr>)"
    using bad [THEN conjunct2, THEN conjunct2, THEN conjunct2, THEN conjunct1] by (simp add: serverBad_def server_def noCache_def emit_def)
  have 5: "requestWallabagAddEntry serverOff ''https://a.org'' noCache =
     (Msg (wallabagoResponseErrorMsg (''Error:'' @ [LF] @ '' Couldn't add the entry'')
        (Some (Error ''timeout''))),
      \<lparr>cache = None, trace = [AddRequest ''https://a.org'']\<rparr>)"
    using off [THEN conjunct2, THEN conjunct2, THEN conjunct2, THEN conjunct2, THEN conjunct1] by (simp add: serverOff_def server_def noCache_def emit_def)
  have 6: "requestWallabagEntryDelete serverOff 7 noCache =
     (Msg (wallabagoResponseErrorMsg (''Error:'' @ [LF] @ '' Couldn't add the entry'')
        (Some (Error ''timeout''))),
      \<lparr>cache = None, trace = [DeleteRequest 7]\<rparr>)"
    using off [THEN conjunct2, THEN conjunct2, THEN conjunct2, THEN conjunct2, THEN conjunct2, THEN conjunct1] by (simp add: serverOff_def server_def noCache_def emit_def)
  have 7: "fst (sync (\<lambda>n p. 3) server 120 55 ''created'' ''desc'' (cached 384 [])) =
     Msg (wallabagoResponseErrorMsg
       (''Error:'' @ [LF] @ '' couldn't load the entries from cache'') (Some (Error ''EOF'')))"
    using undecodable [THEN conjunct2, THEN conjunct2, THEN conjunct2, THEN conjunct2, THEN conjunct2, THEN conjunct2, THEN conjunct1] by (simp add: server_def cached_def)
  have 8: "\<exists>err. fst (sync (\<lambda>n p. 3) server2 120 55 ''created'' ''desc'' noCache) =
     Msg (wallabagoResponseErrorMsg
       (''Error:'' @ [LF] @ '' couldn't retrieve the entries from wallabag API'') (Some err))"
    using page [THEN conjunct2, THEN conjunct2, THEN conjunct2, THEN conjunct2, THEN conjunct2, THEN conjunct2, THEN conjunct2, THEN conjunct1] r(1) by (simp add: server2_def server_def)
  have 9: "fst (sync (\<lambda>n p. 3) serverRO 120 55 ''created'' ''desc'' noCache) =
     Msg (wallabagoResponseErrorMsg
       (''Error:'' @ [LF] @ '' couldn't open file to cache Wallabag entries: '' @
        ''/tmp/walgot-cache.dat: permission denied'') (Some (Error ''permission denied'')))"
    using ro [THEN conjunct2, THEN conjunct2, THEN conjunct2, THEN conjunct2, THEN conjunct2, THEN conjunct2, THEN conjunct2, THEN conjunct2, THEN conjunct1] r(2) by (simp add: serverRO_def server_def cacheFilename_def)
  have 10: "fst (sync (\<lambda>n p. 3) serverEnc 120 55 ''created'' ''desc'' noCache) =
     Msg (wallabagoResponseErrorMsg
       (''Error:'' @ [LF] @ '' couldn't decode cache file to Wallabag entries slice: '' @
        ''short write'') (Some (Error ''short write'')))"
    using enc [THEN conjunct2, THEN conjunct2, THEN conjunct2, THEN conjunct2, THEN conjunct2, THEN conjunct2, THEN conjunct2, THEN conjunct2, THEN conjunct2, THEN conjunct1] r(3) by (simp add: serverEnc_def server_def)
  have 11: "Update (\<lambda>m e. m) model0
        (wallabagoResponseErrorMsg
           (''Error:'' @ [LF] @
            '' couldn't retrieve the total number of entries from wallabag API'')
           (Some (Error ''timeout''))) =
        updateDialogView
          (wallabagoResponseErrorMsg
             (''Error:'' @ [LF] @
              '' couldn't retrieve the total number of entries from wallabag API'')
             (Some (Error ''timeout'')))
          (model0\<lparr>model.Reloading := False,
             Dialog := (Dialog model0)\<lparr>Message :=
               ''Error:'' @ [LF] @
               '' couldn't retrieve the total number of entries from wallabag API''\<rparr>\<rparr>)"
    using down [THEN conjunct2, THEN conjunct2, THEN conjunct2, THEN conjunct2, THEN conjunct2, THEN conjunct2, THEN conjunct2, THEN conjunct2, THEN conjunct2, THEN conjunct2, THEN conjunct2, THEN conjunct2, THEN conjunct2, THEN conjunct2, THEN conjunct2, THEN conjunct2, THEN conjunct1] by simp
  show ?thesis by (intro conjI 1 2 3 4 5 6 7 8 9 10 11)
qed

text \<open>
  The claim as first stated fails in package main: there a failed count request
  prints a line and ends the process with status 1.
\<close>

theorem count_failure_counterexample:
  "requestWallabagNbEntries_main serverDown noCache =
     (Exit 1,
      \<lparr>cache = None,
       trace = [NbRequest, Println ''Couldn't retrieve entries from wallabag'']\<rparr>)"
  by code_simp

subsection \<open>Which view updater gets the message\<close>

text \<open>
  \<^bold>\<open>C6\<close>, as amended. \<^verbatim>\<open>Update\<close> answers three kinds of message itself and calls no
  view updater for them: the key ctrl+c, the key \<open>?\<close> while not reloading, and the
  response to an entry update. For every model and every other message it calls exactly
  one view updater, with that message and with the model as the message has changed
  it (an error message sets the dialog message and ends the reloading, the clear
  message blanks the update message, a row selection sets the selected ID), and the
  updater is chosen by the precedence on that model. In particular, for a message
  that is none of the three and not an error message, a model with a dialog message
  and a selected entry goes to the dialog updater.
\<close>

theorem Update_precedence:
  "(msg \<noteq> KeyMsg ''ctrl+c'' \<and> \<not> (msg = KeyMsg ''?'' \<and> \<not> model.Reloading m) \<and>
    (\<forall>item. msg \<noteq> wallabagoResponseEntityUpdateMsg item) \<longrightarrow>
      (let m' = (case msg of
                   wallabagoResponseErrorMsg message err \<Rightarrow>
                     m\<lparr>model.Reloading := False, Dialog := (Dialog m)\<lparr>Message := message\<rparr>\<rparr>
                 | wallabagoResponseClearMsg v \<Rightarrow> if v then m\<lparr>UpdateMessage := []\<rparr> else m
                 | walgotSelectRowMsg v \<Rightarrow> m\<lparr>model.SelectedID := v\<rparr>
                 | _ \<Rightarrow> m)
       in invoked (Update U m msg) = [(precedence m', msg, m')]))
   \<and> (msg = KeyMsg ''ctrl+c'' \<or> (msg = KeyMsg ''?'' \<and> \<not> model.Reloading m) \<or>
      (\<exists>item. msg = wallabagoResponseEntityUpdateMsg item) \<longrightarrow>
      invoked (Update U m msg) = [])
   \<and> (msg \<noteq> KeyMsg ''ctrl+c'' \<and> \<not> (msg = KeyMsg ''?'' \<and> \<not> model.Reloading m) \<and>
      (\<forall>item. msg \<noteq> wallabagoResponseEntityUpdateMsg item) \<and>
      (\<forall>message err. msg \<noteq> wallabagoResponseErrorMsg message err) \<and>
      Message (Dialog m) \<noteq> [] \<and> model.SelectedID m > 0 \<longrightarrow>
      (\<exists>m'. Update U m msg = updateDialogView msg m'))"
proof (intro conjI impI)
  assume a: "msg \<noteq> KeyMsg ''ctrl+c'' \<and> \<not> (msg = KeyMsg ''?'' \<and> \<not> model.Reloading m) \<and>
    (\<forall>item. msg \<noteq> wallabagoResponseEntityUpdateMsg item)"
  show "let m' = (case msg of
                   wallabagoResponseErrorMsg message err \<Rightarrow>
                     m\<lparr>model.Reloading := False, Dialog := (Dialog m)\<lparr>Message := message\<rparr>\<rparr>
                 | wallabagoResponseClearMsg v \<Rightarrow> if v then m\<lparr>UpdateMessage := []\<rparr> else m
                 | walgotSelectRowMsg v \<Rightarrow> m\<lparr>model.SelectedID := v\<rparr>
                 | _ \<Rightarrow> m)
       in invoked (Update U m msg) = [(precedence m', msg, m')]"
    using a by (cases msg) (auto simp: Update_def precedence_def Let_def)
next
  assume "msg = KeyMsg ''ctrl+c'' \<or> (msg = KeyMsg ''?'' \<and> \<not> model.Reloading m) \<or>
      (\<exists>item. msg = wallabagoResponseEntityUpdateMsg item)"
  then show "invoked (Update U m msg) = []"
    by (auto simp: Update_def)
next
  assume a: "msg \<noteq> KeyMsg ''ctrl+c'' \<and> \<not> (msg = KeyMsg ''?'' \<and> \<not> model.Reloading m) \<and>
      (\<forall>item. msg \<noteq> wallabagoResponseEntityUpdateMsg item) \<and>
      (\<forall>message err. msg \<noteq> wallabagoResponseErrorMsg message err) \<and>
      Message (Dialog m) \<noteq> [] \<and> model.SelectedID m > 0"
  then show "\<exists>m'. Update U m msg = updateDialogView msg m'"
    by (cases msg) (auto simp: Update_def)
qed

theorem Update_precedence_witness:
  "Update (\<lambda>m e. m) model1 (KeyMsg ''q'') = updateDialogView (KeyMsg ''q'') model1
   \<and> Update (\<lambda>m e. m) model0 (walgotSelectRowMsg 7) =
       updateEntryView (walgotSelectRowMsg 7) (model0\<lparr>model.SelectedID := 7\<rparr>)
   \<and> Update (\<lambda>m e. m) model0 (KeyMsg ''q'') = updateListView (KeyMsg ''q'') model0
   \<and> invoked (Update (\<lambda>m e. m) model1 (KeyMsg ''ctrl+c'')) = []"
proof -
  have q: "invoked (Update (\<lambda>m e. m) model1 (KeyMsg ''q'')) = [(DialogView, KeyMsg ''q'', model1)]"
    using Update_precedence [of "KeyMsg ''q''" model1 "\<lambda>m e. m"]
    by (simp add: precedence_def model1_def Let_def)
  have s: "invoked (Update (\<lambda>m e. m) model0 (walgotSelectRowMsg 7)) =
      [(DetailView, walgotSelectRowMsg 7, model0\<lparr>model.SelectedID := 7\<rparr>)]"
    using Update_precedence [of "walgotSelectRowMsg 7" model0 "\<lambda>m e. m"]
    by (simp add: precedence_def model0_def NewModel_def Let_def)
  have l: "invoked (Update (\<lambda>m e. m) model0 (KeyMsg ''q'')) = [(ListView, KeyMsg ''q'', model0)]"
    using Update_precedence [of "KeyMsg ''q''" model0 "\<lambda>m e. m"]
    by (simp add: precedence_def model0_def NewModel_def Let_def)
  have c: "invoked (Update (\<lambda>m e. m) model1 (KeyMsg ''ctrl+c'')) = []"
    using Update_precedence [of "KeyMsg ''ctrl+c''" model1 "\<lambda>m e. m"] by simp
  have inv: "\<And>r v msg (m :: (unit, unit, unit) model). invoked r = [(v, msg, m)] \<Longrightarrow>
      r = (case v of DialogView \<Rightarrow> updateDialogView msg m | HelpView \<Rightarrow> updateHelpView msg m
           | DetailView \<Rightarrow> updateEntryView msg m | ListView \<Rightarrow> updateListView msg m)"
    subgoal for r v msg m by (cases r) auto
    done
  show ?thesis using inv [OF q] inv [OF s] inv [OF l] c by simp
qed

text \<open>
  The claim as first stated fails: with a dialog message and a selected entry, the
  response to an entry update is answered by \<^verbatim>\<open>Update\<close> itself, which returns the model
  and the timer of the clear message; no view updater is called.
\<close>

theorem Update_precedence_counterexample:
  "Message (Dialog model1) \<noteq> [] \<and> model.SelectedID model1 > 0
   \<and> Update (\<lambda>m e. m) model1 (wallabagoResponseEntityUpdateMsg entry1) =
       Return model1 (Tick 5 (wallabagoResponseClearMsg True))
   \<and> invoked (Update (\<lambda>m e. m) model1 (wallabagoResponseEntityUpdateMsg entry1)) = []"
  by code_simp

subsection \<open>The order of the rows\<close>

lemma sortsRequested_emit [simp]:
  "sortsRequested (emit ev w) = sortsRequested w \<union> set (sortOf ev)"
  by (simp add: sortsRequested_def emit_def)

lemma sortsRequested_cache [simp]: "sortsRequested (w\<lparr>cache := c\<rparr>) = sortsRequested w"
  by (simp add: sortsRequested_def)

lemma requestPages_sorts:
  "sortsRequested (snd (requestPages E l sf so bound i es w)) \<subseteq> sortsRequested w \<union> {(sf, so)}"
proof (induction "nat (bound - i)" arbitrary: i es w)
  case 0
  then have "\<not> i < bound" by simp
  then show ?case by (auto simp: requestPages_stop)
next
  case (Suc n)
  then have lt: "i < bound" by simp
  have n: "n = nat (bound - (i + 1))" using Suc.hyps(2) by simp
  show ?case
  proof (cases "snd (GetEntries E l i sf so)")
    case None
    show ?thesis
      unfolding requestPages_step [OF lt None]
      using Suc.hyps(1) [OF n, of "es @ fst (GetEntries E l i sf so)"
          "emit (PageRequest l i sf so) w"]
      by auto
  next
    case (Some err)
    show ?thesis unfolding requestPages_fail [OF lt Some] by auto
  qed
qed

lemma func_sorts:
  "sortsRequested (snd (requestWallabagEntries_func h E N P sf so es w))
     \<subseteq> sortsRequested w \<union> {(sf, so)}"
proof (cases "length es > 0")
  case True
  then show ?thesis by (auto simp: requestWallabagEntries_func_def)
next
  case False
  then have es: "es = []" by simp
  obtain r w' where run: "requestPages E P sf so (wrap64 (h N P + 1)) 1 [] w = (r, w')"
    by (cases "requestPages E P sf so (wrap64 (h N P + 1)) 1 [] w")
  have sub: "sortsRequested w' \<subseteq> sortsRequested w \<union> {(sf, so)}"
    using requestPages_sorts [of E P sf so "wrap64 (h N P + 1)" 1 "[]" w] by (simp add: run)
  show ?thesis
  proof (cases r)
    case (Inl err)
    show ?thesis using sub by (simp add: es requestWallabagEntries_func_def Let_def run Inl)
  next
    case (Inr fetched)
    show ?thesis
    proof (cases "OpenFile_err E")
      case (Some err)
      show ?thesis
        using sub by (simp add: es requestWallabagEntries_func_def Let_def run Inr Some)
    next
      case None
      obtain written e where enc: "Encode E fetched = (written, e)"
        by (cases "Encode E fetched")
      show ?thesis
        using sub
        by (cases e) (simp_all add: es requestWallabagEntries_func_def Let_def run Inr None enc)
    qed
  qed
qed

lemma func_sortsD:
  assumes "x \<in> sortsRequested (snd (requestWallabagEntries_func h E N P sf so es w))"
  shows "x \<in> sortsRequested w \<or> x = (sf, so)"
  using assms func_sorts [of h E N P sf so es w] by auto

lemma sync_sorts:
  "sortsRequested (snd (sync h E N P sf so w)) \<subseteq> sortsRequested w \<union> {(sf, so)}"
  by (auto simp: sync_def requestWallabagEntries_def Let_def
      split: option.splits prod.splits dest!: func_sortsD)

lemma hd_tableRow: "hd (tableRow R item) = Itoa (ID item)"
  by (simp add: tableRow_def Let_def)

text \<open>
  \<^bold>\<open>C9\<close>, as amended. \<^verbatim>\<open>getTableRows\<close> takes no sort field and no direction, and it
  neither sorts nor breaks ties: the rows are in the order of the entry list. The rows
  of two lists put end to end are the rows of the first followed by the rows of the
  second, and the ID column of the rows is a subsequence of the IDs of the entries. The
  sort field and the direction go to the remote service only: every page request of a
  sync attempt of package tui carries the field and the direction the attempt was
  given.
\<close>

theorem rows_in_entry_order:
  "getTableRows R (items1 @ items2) filters =
     getTableRows R items1 filters @ getTableRows R items2 filters
   \<and> subseq (map hd (getTableRows R items filters)) (map (\<lambda>item. Itoa (ID item)) items)
   \<and> sortsRequested (snd (sync h E N P sf so w)) \<subseteq> sortsRequested w \<union> {(sf, so)}"
proof (intro conjI)
  show "getTableRows R (items1 @ items2) filters =
     getTableRows R items1 filters @ getTableRows R items2 filters"
    by (simp add: getTableRows_eq)
  have "map hd (getTableRows R items filters) =
      map (\<lambda>item. Itoa (ID item)) (filter (shown filters) items)"
    by (simp add: getTableRows_eq hd_tableRow)
  moreover have "subseq (map (\<lambda>item. Itoa (ID item)) (filter (shown filters) items))
      (map (\<lambda>item. Itoa (ID item)) items)"
    by (intro subseq_map subseq_filter_left)
  ultimately show "subseq (map hd (getTableRows R items filters))
      (map (\<lambda>item. Itoa (ID item)) items)"
    by simp
  show "sortsRequested (snd (sync h E N P sf so w)) \<subseteq> sortsRequested w \<union> {(sf, so)}"
    by (rule sync_sorts)
qed

theorem rows_in_entry_order_witness:
  "getTableRows plain ([entry2] @ [entry1]) \<lparr>Archived = False, Starred = False, Unread = False\<rparr> =
     getTableRows plain [entry2] \<lparr>Archived = False, Starred = False, Unread = False\<rparr> @
     getTableRows plain [entry1] \<lparr>Archived = False, Starred = False, Unread = False\<rparr>
   \<and> sortsRequested (snd (sync (\<lambda>n p. 3) server 120 55 ''created'' ''desc'' noCache))
       \<subseteq> {(''created'', ''desc'')}"
  using rows_in_entry_order [of plain "[entry2]" "[entry1]"
      "\<lparr>Archived = False, Starred = False, Unread = False\<rparr>" "[]"
      "\<lambda>n p. 3" server 120 55 "''created''" "''desc''" noCache]
  by (simp add: sortsRequested_def noCache_def)

text \<open>
  The claim as first stated fails. Two entries that differ in their ID only tie on
  every sort field; given in the order 2, 1 their rows come in the order 2, 1, not by
  ascending ID.
\<close>

theorem rows_in_entry_order_counterexample:
  "(entry1\<lparr>ID := 2\<rparr>)\<lparr>ID := 1\<rparr> = entry1
   \<and> map hd (getTableRows plain [entry1\<lparr>ID := 2\<rparr>, entry1]
                \<lparr>Archived = False, Starred = False, Unread = False\<rparr>) = [''2'', ''1'']"
  by code_simp

end
